theory Spec2Isabelle
  imports Complex_Main
begin

section \<open>Items and item decorators\<close>

text \<open>
  The value objects of \<^verbatim>\<open>Item.ts\<close> and the decorators of \<^verbatim>\<open>ItemDecorator.ts\<close>.
  JavaScript numbers that the repository only uses at whole values (item values, levels,
  quantities, durabilities, gold) are \<open>int\<close>; the enchantment multipliers and the item
  weights are fractions and are \<open>rat\<close>. A result that is \<open>NaN\<close> in JavaScript is \<open>None\<close>.
\<close>

datatype error = TypeError | ReferenceError | SyntaxError | Error string

datatype ItemType = Weapon | Armor | Consumable | Material | Quest

datatype ItemRarity = Common | Uncommon | Rare | Epic | Legendary

datatype ItemSlot =
  SlotWeapon | SlotShield | SlotHelmet | SlotChest | SlotGloves | SlotBoots | SlotAccessory | SlotNone

record Item =
  item_id :: string
  item_name :: string
  description :: string
  item_type :: ItemType
  rarity :: ItemRarity
  slot :: ItemSlot
  weight :: rat
  item_value :: int
  stackable :: bool
  maxStack :: int
  icon :: string
  spriteKey :: string

fun rarity_text :: "ItemRarity \<Rightarrow> string" where
  "rarity_text Common = ''common''"
| "rarity_text Uncommon = ''uncommon''"
| "rarity_text Rare = ''rare''"
| "rarity_text Epic = ''epic''"
| "rarity_text Legendary = ''legendary''"

definition Item_getDisplayName :: "Item \<Rightarrow> string" where
  "Item_getDisplayName i = item_name i @ '' ('' @ rarity_text (rarity i) @ '')''"

text \<open>The predefined item \<^verbatim>\<open>sword_iron\<close> of \<^verbatim>\<open>ItemFactory\<close>.\<close>

definition sword_iron :: Item where
  "sword_iron = \<lparr> item_id = ''sword_iron'', item_name = ''Iron Sword'',
     description = ''A sturdy iron sword'', item_type = Weapon, rarity = Common,
     slot = SlotWeapon, weight = 3, item_value = 50, stackable = False, maxStack = 1,
     icon = ''sword_iron_icon'', spriteKey = ''sword_iron'' \<rparr>"

definition potion_health :: Item where
  "potion_health = \<lparr> item_id = ''potion_health'', item_name = ''Health Potion'',
     description = ''Restores 50 health points'', item_type = Consumable, rarity = Common,
     slot = SlotNone, weight = 1 / 2, item_value = 25, stackable = True, maxStack = 99,
     icon = ''potion_health_icon'', spriteKey = ''potion_health'' \<rparr>"

subsection \<open>The enchantment tables\<close>

text \<open>
  \<^verbatim>\<open>multipliers[this.enchantmentType] || 1.0\<close> reads a property of an object literal.
  For a name the literal defines the result is its number; for a name that every object
  inherits from \<^verbatim>\<open>Object.prototype\<close> the read yields that inherited member, which is
  truthy and not a number, so the arithmetic on it is \<open>NaN\<close>; for any other name the
  read is \<^verbatim>\<open>undefined\<close> and the default applies.
\<close>

definition objectPrototypeKeys :: "string list" where
  "objectPrototypeKeys =
     [''constructor'', ''__defineGetter__'', ''__defineSetter__'', ''hasOwnProperty'',
      ''__lookupGetter__'', ''__lookupSetter__'', ''isPrototypeOf'', ''propertyIsEnumerable'',
      ''toString'', ''valueOf'', ''__proto__'', ''toLocaleString'']"

definition multipliers :: "(string \<times> rat) list" where
  "multipliers =
     [(''fire'', 3 / 2), (''ice'', 13 / 10), (''lightning'', 7 / 5), (''poison'', 6 / 5),
      (''holy'', 8 / 5), (''dark'', 3 / 2), (''strength'', 1), (''agility'', 1),
      (''intelligence'', 1)]"

definition prefixes :: "(string \<times> string) list" where
  "prefixes =
     [(''fire'', ''Flaming''), (''ice'', ''Frozen''), (''lightning'', ''Thunder''),
      (''poison'', ''Venomous''), (''holy'', ''Blessed''), (''dark'', ''Cursed''),
      (''strength'', ''Mighty''), (''agility'', ''Swift''), (''intelligence'', ''Wise'')]"

definition getEnchantmentTypeMultiplier :: "string \<Rightarrow> rat option" where
  "getEnchantmentTypeMultiplier t =
     (case map_of multipliers t of
        Some m \<Rightarrow> Some m
      | None \<Rightarrow> if t \<in> set objectPrototypeKeys then None else Some 1)"

text \<open>
  \<^verbatim>\<open>prefixes[this.enchantmentType] || 'Enchanted'\<close> reads the second literal the same way:
  for an inherited name the result is the inherited member and not a string.
\<close>

datatype enchantment_prefix = Prefix string | Inherited string

definition getEnchantmentPrefix :: "string \<Rightarrow> enchantment_prefix" where
  "getEnchantmentPrefix t =
     (case map_of prefixes t of
        Some p \<Rightarrow> Prefix p
      | None \<Rightarrow> if t \<in> set objectPrototypeKeys then Inherited t else Prefix ''Enchanted'')"

text \<open>
  The text a template literal makes of such a member, as Node prints it: for a built-in
  function its name in the frame of a native function (the member \<^verbatim>\<open>constructor\<close> is the
  function \<^verbatim>\<open>Object\<close>), and for \<^verbatim>\<open>__proto__\<close>, which is the object \<^verbatim>\<open>Object.prototype\<close>,
  the text \<^verbatim>\<open>[object Object]\<close>.
\<close>

definition inherited_text :: "string \<Rightarrow> string" where
  "inherited_text t =
     (if t = ''__proto__'' then ''[object Object]''
      else ''function '' @ (if t = ''constructor'' then ''Object'' else t) @ ''() { [native code] }'')"

fun prefix_text :: "enchantment_prefix \<Rightarrow> string" where
  "prefix_text (Prefix p) = p"
| "prefix_text (Inherited t) = inherited_text t"

subsection \<open>The decorator classes\<close>

record EnchantedItemDecorator =
  ench_item :: Item
  enchantmentType :: string
  enchantmentLevel :: int
  enchantmentBonus :: "int option"

record DurableItemDecorator =
  dur_item :: Item
  currentDurability :: int
  maxDurability :: int

record MasterworkItemDecorator =
  mw_item :: Item
  craftsmanshipBonus :: int

record LegendaryItemDecorator =
  leg_item :: Item
  legendaryEffect :: string
  legendaryBonus :: int

text \<open>\<^verbatim>\<open>Math.floor(baseBonus * typeMultiplier)\<close> with \<^verbatim>\<open>baseBonus = enchantmentLevel * 2\<close>.
  On the whole levels 1 to 10 and the multipliers of the table the double-precision
  product has the same floor as the exact one.\<close>

definition calculateEnchantmentBonus :: "string \<Rightarrow> int \<Rightarrow> int option" where
  "calculateEnchantmentBonus t level =
     (let baseBonus = level * 2
      in map_option (\<lambda>typeMultiplier. \<lfloor>of_int baseBonus * typeMultiplier\<rfloor>)
           (getEnchantmentTypeMultiplier t))"

definition new_EnchantedItemDecorator :: "Item \<Rightarrow> string \<Rightarrow> int \<Rightarrow> EnchantedItemDecorator" where
  "new_EnchantedItemDecorator i t level =
     (let lv = max 1 (min 10 level)
      in \<lparr> ench_item = i, enchantmentType = t, enchantmentLevel = lv,
           enchantmentBonus = calculateEnchantmentBonus t lv \<rparr>)"

definition new_DurableItemDecorator :: "Item \<Rightarrow> int \<Rightarrow> DurableItemDecorator" where
  "new_DurableItemDecorator i m = \<lparr> dur_item = i, currentDurability = m, maxDurability = m \<rparr>"

definition new_MasterworkItemDecorator :: "Item \<Rightarrow> MasterworkItemDecorator" where
  "new_MasterworkItemDecorator i = \<lparr> mw_item = i, craftsmanshipBonus = 25 \<rparr>"

definition new_LegendaryItemDecorator :: "Item \<Rightarrow> string \<Rightarrow> LegendaryItemDecorator" where
  "new_LegendaryItemDecorator i e = \<lparr> leg_item = i, legendaryEffect = e, legendaryBonus = 50 \<rparr>"

definition Enchanted_getValue :: "EnchantedItemDecorator \<Rightarrow> int option" where
  "Enchanted_getValue d = map_option (\<lambda>b. item_value (ench_item d) + b * 50) (enchantmentBonus d)"

definition Enchanted_getDisplayName :: "EnchantedItemDecorator \<Rightarrow> string" where
  "Enchanted_getDisplayName d =
     (let enchantmentPrefix = getEnchantmentPrefix (enchantmentType d)
      in prefix_text enchantmentPrefix @ '' '' @ item_name (ench_item d))"

definition Masterwork_getValue :: "MasterworkItemDecorator \<Rightarrow> int" where
  "Masterwork_getValue d = \<lfloor>(of_int (item_value (mw_item d)) :: rat) * (3 / 2)\<rfloor>"

definition Masterwork_getDisplayName :: "MasterworkItemDecorator \<Rightarrow> string" where
  "Masterwork_getDisplayName d = ''Masterwork '' @ item_name (mw_item d)"

definition Legendary_getValue :: "LegendaryItemDecorator \<Rightarrow> int" where
  "Legendary_getValue d = item_value (leg_item d) * 5"

definition Legendary_getDisplayName :: "LegendaryItemDecorator \<Rightarrow> string" where
  "Legendary_getDisplayName d = ''Legendary '' @ item_name (leg_item d)"

text \<open>
  \<^verbatim>\<open>createEnhancedItem\<close> returns an \<^verbatim>\<open>IItemDecorator\<close>: one of the four decorators, or
  the item itself when no enhancement is requested.
\<close>

datatype IItemDecorator =
  Plain Item
| Enchanted EnchantedItemDecorator
| Durable DurableItemDecorator
| Masterwork MasterworkItemDecorator
| LegendaryD LegendaryItemDecorator

record enhancements =
  enchantment :: "(string \<times> int) option"
  durability :: "int option"
  masterwork :: "bool option"
  legendary :: "string option"

text \<open>The truthiness tests of the four \<^verbatim>\<open>if\<close> statements: an absent property, the empty
  string, \<open>0\<close> and \<^verbatim>\<open>false\<close> are falsy.\<close>

definition createEnhancedItem :: "Item \<Rightarrow> enhancements \<Rightarrow> IItemDecorator" where
  "createEnhancedItem i e =
     (let enhancedItem = Plain i;
          enhancedItem = (case legendary e of
                            Some s \<Rightarrow> if s \<noteq> [] then LegendaryD (new_LegendaryItemDecorator i s)
                                      else enhancedItem
                          | None \<Rightarrow> enhancedItem);
          enhancedItem = (case masterwork e of
                            Some True \<Rightarrow> Masterwork (new_MasterworkItemDecorator i)
                          | _ \<Rightarrow> enhancedItem);
          enhancedItem = (case durability e of
                            Some m \<Rightarrow> if m \<noteq> 0 then Durable (new_DurableItemDecorator i m)
                                      else enhancedItem
                          | None \<Rightarrow> enhancedItem);
          enhancedItem = (case enchantment e of
                            Some (t, level) \<Rightarrow> Enchanted (new_EnchantedItemDecorator i t level)
                          | None \<Rightarrow> enhancedItem)
      in enhancedItem)"

text \<open>Interface methods used on the result, dispatched on the class of the object. The
  base class \<^verbatim>\<open>ItemDecorator\<close> gives \<^verbatim>\<open>getDurability() = 100\<close> and
  \<^verbatim>\<open>isEnchanted() = false\<close>, which \<^verbatim>\<open>DurableItemDecorator\<close> and
  \<^verbatim>\<open>EnchantedItemDecorator\<close> override; a bare \<^verbatim>\<open>Item\<close> has neither method, so the
  call on it raises.\<close>

fun getDurability :: "IItemDecorator \<Rightarrow> error + int" where
  "getDurability (Plain i) = Inl TypeError"
| "getDurability (Durable d) = Inr (currentDurability d)"
| "getDurability (Enchanted d) = Inr 100"
| "getDurability (Masterwork d) = Inr 100"
| "getDurability (LegendaryD d) = Inr 100"

fun isEnchanted :: "IItemDecorator \<Rightarrow> error + bool" where
  "isEnchanted (Plain i) = Inl TypeError"
| "isEnchanted (Enchanted d) = Inr True"
| "isEnchanted (Durable d) = Inr False"
| "isEnchanted (Masterwork d) = Inr False"
| "isEnchanted (LegendaryD d) = Inr False"


section \<open>JavaScript maps and number formatting\<close>

text \<open>
  A JavaScript \<^verbatim>\<open>Map\<close> iterates in insertion order, \<^verbatim>\<open>set\<close> on a present key keeps the
  key's place, and \<^verbatim>\<open>delete\<close> removes the entry. It is an association list here, with
  the operations written out.
\<close>

definition Map_get :: "'k \<Rightarrow> ('k \<times> 'v) list \<Rightarrow> 'v option" where
  "Map_get k m = map_of m k"

definition Map_has :: "'k \<Rightarrow> ('k \<times> 'v) list \<Rightarrow> bool" where
  "Map_has k m = (k \<in> fst ` set m)"

definition Map_set :: "'k \<Rightarrow> 'v \<Rightarrow> ('k \<times> 'v) list \<Rightarrow> ('k \<times> 'v) list" where
  "Map_set k v m =
     (if Map_has k m then map (\<lambda>(k', v'). if k' = k then (k', v) else (k', v')) m
      else m @ [(k, v)])"

definition Map_delete :: "'k \<Rightarrow> ('k \<times> 'v) list \<Rightarrow> ('k \<times> 'v) list" where
  "Map_delete k m = filter (\<lambda>(k', v'). k' \<noteq> k) m"

definition Map_size :: "('k \<times> 'v) list \<Rightarrow> int" where
  "Map_size m = int (length m)"

definition Map_values :: "('k \<times> 'v) list \<Rightarrow> 'v list" where
  "Map_values m = map snd m"

text \<open>The decimal text of a whole number, as a template string prints it.\<close>

fun show_nat :: "nat \<Rightarrow> string" where
  "show_nat n =
     (if n < 10 then [''0123456789'' ! n]
      else show_nat (n div 10) @ [''0123456789'' ! (n mod 10)])"

declare show_nat.simps [simp del]

definition show_int :: "int \<Rightarrow> string" where
  "show_int i = (if i < 0 then CHR ''-'' # show_nat (nat (- i)) else show_nat (nat i))"

section \<open>Inventory component\<close>

record ItemInstance =
  inst_item :: Item
  quantity :: int
  uniqueId :: string

text \<open>The legacy item of the first inventory map.\<close>

record InventoryItem =
  legacy_id :: string
  legacy_name :: string
  legacy_type :: string
  legacy_quantity :: int
  legacy_maxStack :: int

datatype eventType = item_added | item_removed | item_used | gold_changed | capacity_changed

record InventoryEvent =
  ev_entityId :: string
  ev_eventType :: eventType
  ev_message :: string
  ev_item :: "ItemInstance option"
  ev_quantity :: "int option"
  ev_gold :: "int option"

text \<open>
  The fields of \<^verbatim>\<open>InventoryComponent\<close>. \<open>emitted\<close> is the list of events the component
  has handed to \<^verbatim>\<open>EventBus.emit('inventory:event', _)\<close>, oldest first.
\<close>

record InventoryComponent =
  entityId :: string
  items :: "(string \<times> InventoryItem) list"
  newItems :: "(string \<times> ItemInstance) list"
  maxCapacity :: int
  gold :: int
  emitted :: "InventoryEvent list"

definition new_InventoryComponent :: "int \<Rightarrow> InventoryComponent" where
  "new_InventoryComponent maxCap =
     \<lparr> entityId = [], items = [], newItems = [], maxCapacity = maxCap, gold = 0, emitted = [] \<rparr>"

definition currentCapacity :: "InventoryComponent \<Rightarrow> int" where
  "currentCapacity s = Map_size (items s) + Map_size (newItems s)"

definition isFull :: "InventoryComponent \<Rightarrow> bool" where
  "isFull s = (currentCapacity s \<ge> maxCapacity s)"

definition emitInventoryEvent ::
  "eventType \<Rightarrow> string \<Rightarrow> ItemInstance option \<Rightarrow> int option \<Rightarrow> int option
   \<Rightarrow> InventoryComponent \<Rightarrow> InventoryComponent" where
  "emitInventoryEvent ty msg it q g s =
     s\<lparr>emitted := emitted s @
        [\<lparr> ev_entityId = entityId s, ev_eventType = ty, ev_message = msg,
           ev_item = it, ev_quantity = q, ev_gold = g \<rparr>]\<rparr>"

definition findItemByItemId :: "string \<Rightarrow> InventoryComponent \<Rightarrow> ItemInstance option" where
  "findItemByItemId itemId s =
     find (\<lambda>itemInstance. item_id (inst_item itemInstance) = itemId) (Map_values (newItems s))"

definition updateItemQuantity :: "string \<Rightarrow> int \<Rightarrow> InventoryComponent \<Rightarrow> InventoryComponent" where
  "updateItemQuantity uid newQuantity s =
     (case Map_get uid (newItems s) of
        None \<Rightarrow> s
      | Some itemInstance \<Rightarrow>
          if newQuantity \<le> 0 then s\<lparr>newItems := Map_delete uid (newItems s)\<rparr>
          else s\<lparr>newItems := Map_set uid (itemInstance\<lparr>quantity := newQuantity\<rparr>) (newItems s)\<rparr>)"

definition addItem :: "InventoryItem \<Rightarrow> InventoryComponent \<Rightarrow> bool \<times> InventoryComponent" where
  "addItem item s =
     (if isFull s \<and> \<not> Map_has (legacy_id item) (items s) then (False, s)
      else case Map_get (legacy_id item) (items s) of
        Some existingItem \<Rightarrow>
          (let newQuantity = legacy_quantity existingItem + legacy_quantity item
           in if newQuantity \<le> legacy_maxStack existingItem
              then (True, s\<lparr>items := Map_set (legacy_id item)
                                     (existingItem\<lparr>legacy_quantity := newQuantity\<rparr>) (items s)\<rparr>)
              else (False, s))
      | None \<Rightarrow> (True, s\<lparr>items := Map_set (legacy_id item) item (items s)\<rparr>))"

definition addItemInstance :: "ItemInstance \<Rightarrow> InventoryComponent \<Rightarrow> bool \<times> InventoryComponent" where
  "addItemInstance itemInstance s =
     (if isFull s \<and> \<not> Map_has (uniqueId itemInstance) (newItems s)
      then (False, emitInventoryEvent item_added ''Inventory is full'' (Some itemInstance) None None s)
      else
        let existing = findItemByItemId (item_id (inst_item itemInstance)) s;
            asNew = (True,
              emitInventoryEvent item_added
                (''Added '' @ show_int (quantity itemInstance) @ '' '' @ item_name (inst_item itemInstance))
                (Some itemInstance) (Some (quantity itemInstance)) None
                (s\<lparr>newItems := Map_set (uniqueId itemInstance) itemInstance (newItems s)\<rparr>))
        in case existing of
             Some existingItem \<Rightarrow>
               if stackable (inst_item itemInstance) then
                 (let newQuantity = quantity existingItem + quantity itemInstance
                  in if newQuantity \<le> maxStack (inst_item itemInstance)
                     then (True,
                       emitInventoryEvent item_added
                         (''Added '' @ show_int (quantity itemInstance) @ '' ''
                            @ item_name (inst_item itemInstance) @ '' to existing stack'')
                         (Some existingItem) (Some (quantity itemInstance)) None
                         (updateItemQuantity (uniqueId existingItem) newQuantity s))
                     else asNew)
               else asNew
           | None \<Rightarrow> asNew)"

subsection \<open>The item factory\<close>

definition sword_steel :: Item where
  "sword_steel = \<lparr> item_id = ''sword_steel'', item_name = ''Steel Sword'',
     description = ''A well-crafted steel sword'', item_type = Weapon, rarity = Uncommon,
     slot = SlotWeapon, weight = 7 / 2, item_value = 150, stackable = False, maxStack = 1,
     icon = ''sword_steel_icon'', spriteKey = ''sword_steel'' \<rparr>"

definition armor_leather :: Item where
  "armor_leather = \<lparr> item_id = ''armor_leather'', item_name = ''Leather Armor'',
     description = ''Light leather armor'', item_type = Armor, rarity = Common,
     slot = SlotChest, weight = 5, item_value = 30, stackable = False, maxStack = 1,
     icon = ''armor_leather_icon'', spriteKey = ''armor_leather'' \<rparr>"

definition helmet_iron :: Item where
  "helmet_iron = \<lparr> item_id = ''helmet_iron'', item_name = ''Iron Helmet'',
     description = ''Protective iron helmet'', item_type = Armor, rarity = Common,
     slot = SlotHelmet, weight = 2, item_value = 40, stackable = False, maxStack = 1,
     icon = ''helmet_iron_icon'', spriteKey = ''helmet_iron'' \<rparr>"

definition potion_mana :: Item where
  "potion_mana = \<lparr> item_id = ''potion_mana'', item_name = ''Mana Potion'',
     description = ''Restores 50 mana points'', item_type = Consumable, rarity = Common,
     slot = SlotNone, weight = 1 / 2, item_value = 30, stackable = True, maxStack = 99,
     icon = ''potion_mana_icon'', spriteKey = ''potion_mana'' \<rparr>"

definition herb_red :: Item where
  "herb_red = \<lparr> item_id = ''herb_red'', item_name = ''Red Herb'',
     description = ''A red herb used in alchemy'', item_type = Material, rarity = Common,
     slot = SlotNone, weight = 1 / 10, item_value = 5, stackable = True, maxStack = 999,
     icon = ''herb_red_icon'', spriteKey = ''herb_red'' \<rparr>"

definition ore_iron :: Item where
  "ore_iron = \<lparr> item_id = ''ore_iron'', item_name = ''Iron Ore'',
     description = ''Raw iron ore for smithing'', item_type = Material, rarity = Common,
     slot = SlotNone, weight = 1, item_value = 10, stackable = True, maxStack = 999,
     icon = ''ore_iron_icon'', spriteKey = ''ore_iron'' \<rparr>"

definition key_ancient :: Item where
  "key_ancient = \<lparr> item_id = ''key_ancient'', item_name = ''Ancient Key'',
     description = ''An ancient key with mysterious markings'', item_type = Quest, rarity = Rare,
     slot = SlotNone, weight = 1 / 5, item_value = 0, stackable = False, maxStack = 1,
     icon = ''key_ancient_icon'', spriteKey = ''key_ancient'' \<rparr>"

definition ItemFactory_items :: "(string \<times> Item) list" where
  "ItemFactory_items =
     [(''sword_iron'', sword_iron), (''sword_steel'', sword_steel),
      (''armor_leather'', armor_leather), (''helmet_iron'', helmet_iron),
      (''potion_health'', potion_health), (''potion_mana'', potion_mana),
      (''herb_red'', herb_red), (''ore_iron'', ore_iron), (''key_ancient'', key_ancient)]"

definition ItemFactory_getItem :: "string \<Rightarrow> Item option" where
  "ItemFactory_getItem i = Map_get i ItemFactory_items"

text \<open>
  \<^verbatim>\<open>createInstance\<close> builds the unique id from \<^verbatim>\<open>Date.now()\<close> and nine characters of
  \<^verbatim>\<open>Math.random().toString(36)\<close>; the clock reading \<open>now\<close> and the random text \<open>rnd\<close> are
  inputs.
\<close>

definition createInstance :: "int \<Rightarrow> string \<Rightarrow> Item \<Rightarrow> int \<Rightarrow> ItemInstance" where
  "createInstance now rnd i q =
     \<lparr> inst_item = i, quantity = min q (maxStack i),
       uniqueId = item_id i @ ''_'' @ show_int now @ ''_'' @ rnd \<rparr>"

definition createItemInstance :: "int \<Rightarrow> string \<Rightarrow> string \<Rightarrow> int \<Rightarrow> ItemInstance option" where
  "createItemInstance now rnd i q = map_option (\<lambda>item. createInstance now rnd item q) (ItemFactory_getItem i)"

definition addItemById ::
  "int \<Rightarrow> string \<Rightarrow> string \<Rightarrow> int \<Rightarrow> InventoryComponent \<Rightarrow> bool \<times> InventoryComponent" where
  "addItemById now rnd itemId q s =
     (case createItemInstance now rnd itemId q of
        None \<Rightarrow> (False, emitInventoryEvent item_added (''Failed to create item: '' @ itemId)
                           None (Some q) None s)
      | Some itemInstance \<Rightarrow> addItemInstance itemInstance s)"

subsection \<open>Removing items, gold, clearing\<close>

definition removeItem :: "string \<Rightarrow> int \<Rightarrow> InventoryComponent \<Rightarrow> bool \<times> InventoryComponent" where
  "removeItem itemId q s =
     (case Map_get itemId (items s) of
        None \<Rightarrow> (False, s)
      | Some item \<Rightarrow>
          if legacy_quantity item \<le> q then (True, s\<lparr>items := Map_delete itemId (items s)\<rparr>)
          else (True, s\<lparr>items := Map_set itemId
                                 (item\<lparr>legacy_quantity := legacy_quantity item - q\<rparr>) (items s)\<rparr>))"

definition removeItemInstance :: "string \<Rightarrow> int \<Rightarrow> InventoryComponent \<Rightarrow> bool \<times> InventoryComponent" where
  "removeItemInstance uid q s =
     (case Map_get uid (newItems s) of
        None \<Rightarrow> (False, s)
      | Some itemInstance \<Rightarrow>
          if quantity itemInstance \<le> q
          then (True,
            emitInventoryEvent item_removed (''Removed all '' @ item_name (inst_item itemInstance))
              (Some itemInstance) (Some (quantity itemInstance)) None
              (s\<lparr>newItems := Map_delete uid (newItems s)\<rparr>))
          else (True,
            emitInventoryEvent item_removed
              (''Removed '' @ show_int q @ '' '' @ item_name (inst_item itemInstance))
              (Some itemInstance) (Some q) None
              (updateItemQuantity uid (quantity itemInstance - q) s)))"

definition removeItemById :: "string \<Rightarrow> int \<Rightarrow> InventoryComponent \<Rightarrow> bool \<times> InventoryComponent" where
  "removeItemById itemId q s =
     (case findItemByItemId itemId s of
        None \<Rightarrow> (False, s)
      | Some itemInstance \<Rightarrow> removeItemInstance (uniqueId itemInstance) q s)"

definition addGold :: "int \<Rightarrow> InventoryComponent \<Rightarrow> InventoryComponent" where
  "addGold amount s =
     (let s' = s\<lparr>gold := gold s + max 0 amount\<rparr>
      in emitInventoryEvent gold_changed (''Added '' @ show_int amount @ '' gold'')
           None None (Some (gold s')) s')"

definition removeGold :: "int \<Rightarrow> InventoryComponent \<Rightarrow> bool \<times> InventoryComponent" where
  "removeGold amount s =
     (if gold s \<ge> amount
      then (let s' = s\<lparr>gold := gold s - amount\<rparr>
            in (True, emitInventoryEvent gold_changed (''Removed '' @ show_int amount @ '' gold'')
                        None None (Some (gold s')) s'))
      else (False, s))"

definition clear :: "InventoryComponent \<Rightarrow> InventoryComponent" where
  "clear s = s\<lparr>items := [], gold := 0\<rparr>"

text \<open>Every state-changing method of the component as one operation, and a run of them.\<close>

datatype inventory_op =
  AddItem InventoryItem
| AddItemInstance ItemInstance
| AddItemById int string string int
| RemoveItem string int
| RemoveItemInstance string int
| RemoveItemById string int
| AddGold int
| RemoveGold int
| Clear

fun apply_op :: "InventoryComponent \<Rightarrow> inventory_op \<Rightarrow> InventoryComponent" where
  "apply_op s (AddItem item) = snd (addItem item s)"
| "apply_op s (AddItemInstance itemInstance) = snd (addItemInstance itemInstance s)"
| "apply_op s (AddItemById now rnd itemId q) = snd (addItemById now rnd itemId q s)"
| "apply_op s (RemoveItem itemId q) = snd (removeItem itemId q s)"
| "apply_op s (RemoveItemInstance uid q) = snd (removeItemInstance uid q s)"
| "apply_op s (RemoveItemById itemId q) = snd (removeItemById itemId q s)"
| "apply_op s (AddGold amount) = addGold amount s"
| "apply_op s (RemoveGold amount) = snd (removeGold amount s)"
| "apply_op s Clear = clear s"

definition run_ops :: "InventoryComponent \<Rightarrow> inventory_op list \<Rightarrow> InventoryComponent" where
  "run_ops s ops = foldl apply_op s ops"

text \<open>An inventory of capacity one after one stack of three health potions was added: it
  is full and holds a partial stack.\<close>

definition full_potion_inventory :: InventoryComponent where
  "full_potion_inventory =
     snd (addItemInstance
            \<lparr> inst_item = potion_health, quantity = 3, uniqueId = ''potion_health_1_a'' \<rparr>
            (new_InventoryComponent 1))"

section \<open>Tiles and the map composite\<close>

datatype TileType = GRASS | STONE | WATER | SAND | FOREST | MOUNTAIN | PATH | BRIDGE

text \<open>The \<^verbatim>\<open>walkable\<close> and \<^verbatim>\<open>elevation\<close> columns of \<^verbatim>\<open>TilePropertiesFactory.properties\<close>.\<close>

fun walkable :: "TileType \<Rightarrow> bool" where
  "walkable GRASS = True"
| "walkable STONE = True"
| "walkable WATER = False"
| "walkable SAND = True"
| "walkable FOREST = True"
| "walkable MOUNTAIN = False"
| "walkable PATH = True"
| "walkable BRIDGE = True"

fun elevation :: "TileType \<Rightarrow> int" where
  "elevation GRASS = 0"
| "elevation STONE = 0"
| "elevation WATER = - 1"
| "elevation SAND = 0"
| "elevation FOREST = 1"
| "elevation MOUNTAIN = 3"
| "elevation PATH = 0"
| "elevation BRIDGE = 0"

text \<open>A \<^verbatim>\<open>TileInstance\<close>: the tile type, which selects the shared flyweight, and the
  extrinsic coordinates.\<close>

record TileInstance =
  tile_type :: TileType
  tile_x :: int
  tile_y :: int
  tile_z :: int

definition TileInstance_isWalkable :: "TileInstance \<Rightarrow> bool" where
  "TileInstance_isWalkable t = walkable (tile_type t)"

definition TileInstance_getElevation :: "TileInstance \<Rightarrow> int" where
  "TileInstance_getElevation t = elevation (tile_type t)"

text \<open>
  A \<^verbatim>\<open>MapComponent\<close> is a leaf \<^verbatim>\<open>TileComponent\<close> (bounds \<open>x\<close>, \<open>y\<close>, 1, 1 and its tile) or a
  \<^verbatim>\<open>MapComposite\<close> (bounds \<open>x\<close>, \<open>y\<close>, \<open>width\<close>, \<open>height\<close> and its children); layers and regions
  are composites and inherit \<^verbatim>\<open>getTile\<close>.
\<close>

datatype MapComponent =
  TileComponent int int TileInstance
| MapComposite int int int int "MapComponent list"

definition new_TileComponent :: "TileInstance \<Rightarrow> MapComponent" where
  "new_TileComponent t = TileComponent (tile_x t) (tile_y t) t"

definition isWithinBounds :: "int \<Rightarrow> int \<Rightarrow> int \<Rightarrow> int \<Rightarrow> int \<Rightarrow> int \<Rightarrow> bool" where
  "isWithinBounds bx by bw bh x y = (x \<ge> bx \<and> x < bx + bw \<and> y \<ge> by \<and> y < by + bh)"

fun getTile :: "MapComponent \<Rightarrow> int \<Rightarrow> int \<Rightarrow> TileInstance option"
  and getTile_children :: "MapComponent list \<Rightarrow> int \<Rightarrow> int \<Rightarrow> TileInstance option" where
  "getTile (TileComponent bx by t) x y = (if isWithinBounds bx by 1 1 x y then Some t else None)"
| "getTile (MapComposite bx by bw bh children) x y =
     (if \<not> isWithinBounds bx by bw bh x y then None else getTile_children children x y)"
| "getTile_children [] x y = None"
| "getTile_children (child # rest) x y =
     (case getTile child x y of Some t \<Rightarrow> Some t | None \<Rightarrow> getTile_children rest x y)"

text \<open>The \<^verbatim>\<open>Map\<close> facade is the composite with bounds \<open>0, 0, width, height\<close>.\<close>

record GameMap =
  map_name :: string
  width :: int
  height :: int
  children :: "MapComponent list"

definition Map_getTile :: "GameMap \<Rightarrow> int \<Rightarrow> int \<Rightarrow> TileInstance option" where
  "Map_getTile m x y = getTile (MapComposite 0 0 (width m) (height m) (children m)) x y"

definition isWalkable :: "GameMap \<Rightarrow> int \<Rightarrow> int \<Rightarrow> bool" where
  "isWalkable m x y = (case Map_getTile m x y of Some t \<Rightarrow> TileInstance_isWalkable t | None \<Rightarrow> False)"

definition getElevation :: "GameMap \<Rightarrow> int \<Rightarrow> int \<Rightarrow> int" where
  "getElevation m x y = (case Map_getTile m x y of Some t \<Rightarrow> TileInstance_getElevation t | None \<Rightarrow> 0)"

section \<open>Components of an entity\<close>

datatype Direction = north | south | east | west

datatype AnimationType = idle | walk | attack | cast

fun direction_text :: "Direction \<Rightarrow> string" where
  "direction_text north = ''north''"
| "direction_text south = ''south''"
| "direction_text east = ''east''"
| "direction_text west = ''west''"

fun animation_text :: "AnimationType \<Rightarrow> string" where
  "animation_text idle = ''idle''"
| "animation_text walk = ''walk''"
| "animation_text attack = ''attack''"
| "animation_text cast = ''cast''"

record PositionComponent =
  pos_entityId :: string
  pos_x :: int
  pos_y :: int
  pos_z :: int

definition new_PositionComponent :: "int \<Rightarrow> int \<Rightarrow> int \<Rightarrow> PositionComponent" where
  "new_PositionComponent x y z = \<lparr> pos_entityId = [], pos_x = x, pos_y = y, pos_z = z \<rparr>"

definition PositionComponent_setPosition ::
  "int \<Rightarrow> int \<Rightarrow> int \<Rightarrow> PositionComponent \<Rightarrow> PositionComponent" where
  "PositionComponent_setPosition x y z c = c\<lparr>pos_x := x, pos_y := y, pos_z := z\<rparr>"

record AnimationState =
  st_type :: AnimationType
  st_direction :: Direction
  currentFrame :: int
  totalFrames :: int
  frameRate :: int
  isLooping :: bool
  isPlaying :: bool

record AnimationConfig =
  cfg_type :: AnimationType
  cfg_direction :: Direction
  cfg_totalFrames :: int
  cfg_frameRate :: int
  cfg_isLooping :: "bool option"

record AnimationComponent =
  anim_entityId :: string
  currentState :: AnimationState
  lastFrameTime :: int
  configurations :: "(string \<times> AnimationConfig) list"

text \<open>
  The file of the class reads \<^verbatim>\<open>class AnimationComponent extends Component\<close> and imports no
  \<^verbatim>\<open>Component\<close>, and the constructor assigns \<^verbatim>\<open>this._currentState\<close> without a call of
  \<^verbatim>\<open>super()\<close>. So \<^verbatim>\<open>new AnimationComponent()\<close> raises a \<^verbatim>\<open>ReferenceError\<close> and builds no
  object. The methods of the class are modelled as their text reads, on a record of the
  fields the class declares.
\<close>

definition new_AnimationComponent :: "error + AnimationComponent" where
  "new_AnimationComponent = Inl ReferenceError"

definition animation_key :: "AnimationType \<Rightarrow> Direction \<Rightarrow> string" where
  "animation_key t d = animation_text t @ ''_'' @ direction_text d"

definition addAnimation :: "AnimationConfig \<Rightarrow> AnimationComponent \<Rightarrow> AnimationComponent" where
  "addAnimation config a =
     a\<lparr>configurations :=
         Map_set (animation_key (cfg_type config) (cfg_direction config)) config (configurations a)\<rparr>"

definition setAnimation :: "AnimationType \<Rightarrow> Direction \<Rightarrow> AnimationComponent \<Rightarrow> AnimationComponent" where
  "setAnimation t d a =
     (case Map_get (animation_key t d) (configurations a) of
        Some config \<Rightarrow>
          a\<lparr>currentState :=
              \<lparr> st_type = cfg_type config, st_direction = cfg_direction config, currentFrame = 0,
                totalFrames = cfg_totalFrames config, frameRate = cfg_frameRate config,
                isLooping = (case cfg_isLooping config of Some b \<Rightarrow> b | None \<Rightarrow> True),
                isPlaying = True \<rparr>\<rparr>
      | None \<Rightarrow> a)"

text \<open>The getter \<^verbatim>\<open>animationType\<close> reads the property \<^verbatim>\<open>animationType\<close> of the state
  object; an \<^verbatim>\<open>AnimationState\<close> has the property \<^verbatim>\<open>type\<close> and no property of that
  name, so the read is \<^verbatim>\<open>undefined\<close>.\<close>

definition AnimationComponent_animationType :: "AnimationComponent \<Rightarrow> AnimationType option" where
  "AnimationComponent_animationType a = None"

record SpriteComponent =
  spr_entityId :: string
  textureKey :: string
  frame :: int
  animationState :: string
  visible :: bool
  alpha :: rat
  scale :: rat
  rotation :: rat
  flipX :: bool
  flipY :: bool

definition new_SpriteComponent :: "string \<Rightarrow> int \<Rightarrow> string \<Rightarrow> SpriteComponent" where
  "new_SpriteComponent k f st =
     \<lparr> spr_entityId = [], textureKey = k, frame = f, animationState = st, visible = True,
       alpha = 1, scale = 1, rotation = 0, flipX = False, flipY = False \<rparr>"

datatype Component =
  PositionC PositionComponent
| SpriteC SpriteComponent
| AnimationC AnimationComponent
| InventoryC InventoryComponent

text \<open>The \<^verbatim>\<open>type\<close> field each component class initialises; nothing in the repository
  assigns it afterwards.\<close>

fun component_type :: "Component \<Rightarrow> string" where
  "component_type (PositionC c) = ''Position''"
| "component_type (SpriteC c) = ''Sprite''"
| "component_type (AnimationC c) = ''AnimationComponent''"
| "component_type (InventoryC c) = ''Inventory''"

fun setEntityId :: "string \<Rightarrow> Component \<Rightarrow> Component" where
  "setEntityId i (PositionC c) = PositionC (c\<lparr>pos_entityId := i\<rparr>)"
| "setEntityId i (SpriteC c) = SpriteC (c\<lparr>spr_entityId := i\<rparr>)"
| "setEntityId i (AnimationC c) = AnimationC (c\<lparr>anim_entityId := i\<rparr>)"
| "setEntityId i (InventoryC c) = InventoryC (c\<lparr>entityId := i\<rparr>)"

section \<open>The sprite manager\<close>

record SpriteTexture =
  tex_key :: string
  tex_url :: string
  tex_width :: int
  tex_height :: int
  tex_loaded :: bool

text \<open>The singleton's \<^verbatim>\<open>_characterSets\<close>: for a character class, the frames of every
  animation key.\<close>

type_synonym SpriteManager = "(string \<times> (string \<times> SpriteTexture list) list) list"

definition getAnimationFrames ::
  "SpriteManager \<Rightarrow> string \<Rightarrow> AnimationType \<Rightarrow> Direction \<Rightarrow> SpriteTexture list option" where
  "getAnimationFrames sm characterClass t d =
     (case Map_get characterClass sm of
        None \<Rightarrow> None
      | Some animations \<Rightarrow> Map_get (animation_key t d) animations)"

definition getCurrentFrameTexture ::
  "SpriteManager \<Rightarrow> string \<Rightarrow> AnimationType \<Rightarrow> Direction \<Rightarrow> int \<Rightarrow> SpriteTexture option" where
  "getCurrentFrameTexture sm characterClass t d frameIndex =
     (case getAnimationFrames sm characterClass t d of
        None \<Rightarrow> None
      | Some frames \<Rightarrow>
          if frameIndex \<ge> int (length frames) \<or> frameIndex < 0 then None
          else Some (frames ! nat frameIndex))"

section \<open>The player entity\<close>

datatype CharacterClassType = WIZARD | WARRIOR | ROGUE | CLERIC

fun class_text :: "CharacterClassType \<Rightarrow> string" where
  "class_text WIZARD = ''WIZARD''"
| "class_text WARRIOR = ''WARRIOR''"
| "class_text ROGUE = ''ROGUE''"
| "class_text CLERIC = ''CLERIC''"

text \<open>\<^verbatim>\<open>this._characterClass.type.toLowerCase()\<close>.\<close>

fun class_toLowerCase :: "CharacterClassType \<Rightarrow> string" where
  "class_toLowerCase WIZARD = ''wizard''"
| "class_toLowerCase WARRIOR = ''warrior''"
| "class_toLowerCase ROGUE = ''rogue''"
| "class_toLowerCase CLERIC = ''cleric''"

text \<open>
  A \<^verbatim>\<open>Player\<close> is an \<^verbatim>\<open>Entity\<close>: an id and the map from component type names to
  components, with a name and a character class.
\<close>

record Player =
  player_id :: string
  player_name :: string
  characterClass :: CharacterClassType
  components :: "(string \<times> Component) list"

definition addComponent :: "Component \<Rightarrow> Player \<Rightarrow> Player" where
  "addComponent c p =
     p\<lparr>components := Map_set (component_type c) (setEntityId (player_id p) c) (components p)\<rparr>"

text \<open>
  The getters \<^verbatim>\<open>position\<close>, \<^verbatim>\<open>sprite\<close> and \<^verbatim>\<open>animation\<close> look the component up under
  \<^verbatim>\<open>'Position'\<close>, \<^verbatim>\<open>'Sprite'\<close> and \<^verbatim>\<open>'Animation'\<close> and cast the result to the class.
\<close>

definition position :: "Player \<Rightarrow> PositionComponent option" where
  "position p = (case Map_get ''Position'' (components p) of Some (PositionC c) \<Rightarrow> Some c | _ \<Rightarrow> None)"

definition sprite :: "Player \<Rightarrow> SpriteComponent option" where
  "sprite p = (case Map_get ''Sprite'' (components p) of Some (SpriteC c) \<Rightarrow> Some c | _ \<Rightarrow> None)"

definition animation :: "Player \<Rightarrow> AnimationComponent option" where
  "animation p = (case Map_get ''Animation'' (components p) of Some (AnimationC c) \<Rightarrow> Some c | _ \<Rightarrow> None)"

text \<open>
  \<^verbatim>\<open>addComponent\<close> is the only writer of the component map and files every component
  under its own type name, so every key of the map is the type name of its component. In
  such an entity a component found under a key has the class the getter casts to.
\<close>

definition entity_wf :: "Player \<Rightarrow> bool" where
  "entity_wf p = list_all (\<lambda>(k, c). k = component_type c) (components p)"

definition getX :: "Player \<Rightarrow> int" where
  "getX p = (case position p of Some c \<Rightarrow> pos_x c | None \<Rightarrow> 0)"

definition getY :: "Player \<Rightarrow> int" where
  "getY p = (case position p of Some c \<Rightarrow> pos_y c | None \<Rightarrow> 0)"

definition getZ :: "Player \<Rightarrow> int" where
  "getZ p = (case position p of Some c \<Rightarrow> pos_z c | None \<Rightarrow> 0)"

definition setPosition :: "int \<Rightarrow> int \<Rightarrow> int \<Rightarrow> Player \<Rightarrow> Player" where
  "setPosition x y z p =
     (case position p of
        Some c \<Rightarrow> p\<lparr>components :=
                     Map_set ''Position'' (PositionC (PositionComponent_setPosition x y z c))
                       (components p)\<rparr>
      | None \<Rightarrow> p)"

text \<open>
  \<^verbatim>\<open>updateSpriteTexture\<close> asks the sprite manager for the texture of the current frame and,
  when there is one, calls \<^verbatim>\<open>this.sprite.setTexture(texture.key)\<close>. \<^verbatim>\<open>SpriteComponent\<close>
  declares \<^verbatim>\<open>setTextureKey\<close> and no method \<^verbatim>\<open>setTexture\<close>, so that call raises a
  \<^verbatim>\<open>TypeError\<close>.
\<close>

definition updateSpriteTexture :: "SpriteManager \<Rightarrow> Player \<Rightarrow> error + Player" where
  "updateSpriteTexture sm p =
     (case (animation p, sprite p) of
        (Some a, Some s) \<Rightarrow>
          (case getCurrentFrameTexture sm (class_toLowerCase (characterClass p))
                  (st_type (currentState a)) (st_direction (currentState a))
                  (currentFrame (currentState a)) of
             Some texture \<Rightarrow> Inl TypeError
           | None \<Rightarrow> Inr p)
      | _ \<Rightarrow> Inr p)"

definition setDirection :: "SpriteManager \<Rightarrow> Direction \<Rightarrow> Player \<Rightarrow> error + Player" where
  "setDirection sm d p =
     (case animation p of
        Some a \<Rightarrow>
          (let currentType = st_type (currentState a)
           in updateSpriteTexture sm
                (p\<lparr>components :=
                    Map_set ''Animation'' (AnimationC (setAnimation currentType d a)) (components p)\<rparr>))
      | None \<Rightarrow> Inr p)"

definition setAnimationType :: "SpriteManager \<Rightarrow> AnimationType \<Rightarrow> Player \<Rightarrow> error + Player" where
  "setAnimationType sm t p =
     (case animation p of
        Some a \<Rightarrow>
          (let currentDirection = st_direction (currentState a)
           in updateSpriteTexture sm
                (p\<lparr>components :=
                    Map_set ''Animation'' (AnimationC (setAnimation t currentDirection a)) (components p)\<rparr>))
      | None \<Rightarrow> Inr p)"

definition getCurrentAnimationType :: "Player \<Rightarrow> AnimationType" where
  "getCurrentAnimationType p =
     (case animation p of
        Some a \<Rightarrow> (case AnimationComponent_animationType a of Some t \<Rightarrow> t | None \<Rightarrow> idle)
      | None \<Rightarrow> idle)"

section \<open>Movement commands\<close>

record MovementCommand =
  deltaX :: int
  deltaY :: int
  deltaZ :: int
  direction :: Direction
  previousPosition :: "(int \<times> int \<times> int) option"

definition MoveNorthCommand :: MovementCommand where
  "MoveNorthCommand = \<lparr> deltaX = 0, deltaY = - 1, deltaZ = 0, direction = north, previousPosition = None \<rparr>"

definition MoveSouthCommand :: MovementCommand where
  "MoveSouthCommand = \<lparr> deltaX = 0, deltaY = 1, deltaZ = 0, direction = south, previousPosition = None \<rparr>"

definition MoveEastCommand :: MovementCommand where
  "MoveEastCommand = \<lparr> deltaX = 1, deltaY = 0, deltaZ = 0, direction = east, previousPosition = None \<rparr>"

definition MoveWestCommand :: MovementCommand where
  "MoveWestCommand = \<lparr> deltaX = - 1, deltaY = 0, deltaZ = 0, direction = west, previousPosition = None \<rparr>"

definition isValidPosition :: "GameMap \<Rightarrow> Player \<Rightarrow> int \<Rightarrow> int \<Rightarrow> int \<Rightarrow> bool" where
  "isValidPosition m p x y z =
     (if x < 0 \<or> x \<ge> width m \<or> y < 0 \<or> y \<ge> height m then False
      else if \<not> isWalkable m x y then False
      else
        let currentElevation = getElevation m (getX p) (getY p);
            targetElevation = getElevation m x y;
            elevationDiff = \<bar>targetElevation - currentElevation\<bar>
        in if elevationDiff > 1 then False else True)"

definition canExecute :: "MovementCommand \<Rightarrow> GameMap \<Rightarrow> Player \<Rightarrow> bool" where
  "canExecute c m p =
     (let newX = getX p + deltaX c; newY = getY p + deltaY c; newZ = getZ p + deltaZ c
      in isValidPosition m p newX newY newZ)"

text \<open>
  \<^verbatim>\<open>execute\<close> and \<^verbatim>\<open>undo\<close> mutate the command (its stored previous position) and the
  player; both are returned with the result. An exception raised by one of the player's
  methods leaves the method at that point: its result is \<open>Inl\<close>.
\<close>

definition execute ::
  "SpriteManager \<Rightarrow> GameMap \<Rightarrow> MovementCommand \<Rightarrow> Player \<Rightarrow> error + (bool \<times> MovementCommand \<times> Player)" where
  "execute sm m c p =
     (if \<not> canExecute c m p then Inr (False, c, p)
      else
        let c1 = c\<lparr>previousPosition := Some (getX p, getY p, getZ p)\<rparr>;
            newX = getX p + deltaX c; newY = getY p + deltaY c; newZ = getZ p + deltaZ c
        in if \<not> isValidPosition m p newX newY newZ then Inr (False, c1, p)
           else
             case setDirection sm (direction c) (setPosition newX newY newZ p) of
               Inl e \<Rightarrow> Inl e
             | Inr p2 \<Rightarrow>
                 (case setAnimationType sm walk p2 of
                    Inl e \<Rightarrow> Inl e
                  | Inr p3 \<Rightarrow> Inr (True, c1, p3)))"

definition undo ::
  "SpriteManager \<Rightarrow> MovementCommand \<Rightarrow> Player \<Rightarrow> error + (bool \<times> MovementCommand \<times> Player)" where
  "undo sm c p =
     (case previousPosition c of
        None \<Rightarrow> Inr (False, c, p)
      | Some (x, y, z) \<Rightarrow>
          (case setAnimationType sm idle (setPosition x y z p) of
             Inl e \<Rightarrow> Inl e
           | Inr p2 \<Rightarrow> Inr (True, c, p2)))"

text \<open>\<^verbatim>\<open>NoMovementCommand\<close> overrides \<^verbatim>\<open>execute\<close> and \<^verbatim>\<open>canExecute\<close>; it stores no previous
  position.\<close>

definition NoMovementCommand :: MovementCommand where
  "NoMovementCommand = \<lparr> deltaX = 0, deltaY = 0, deltaZ = 0, direction = south, previousPosition = None \<rparr>"

definition NoMovement_execute ::
  "SpriteManager \<Rightarrow> MovementCommand \<Rightarrow> Player \<Rightarrow> error + (bool \<times> MovementCommand \<times> Player)" where
  "NoMovement_execute sm c p =
     (case setAnimationType sm idle p of Inl e \<Rightarrow> Inl e | Inr p2 \<Rightarrow> Inr (True, c, p2))"

text \<open>A ten by ten map with grass at (5, 5) and (6, 5), forest at (5, 4) and a mountain at
  (4, 5).\<close>

definition demo_map :: GameMap where
  "demo_map = \<lparr> map_name = ''TestMap'', width = 10, height = 10,
     children = [MapComposite 0 0 10 10
       [new_TileComponent \<lparr> tile_type = GRASS, tile_x = 5, tile_y = 5, tile_z = 0 \<rparr>,
        new_TileComponent \<lparr> tile_type = GRASS, tile_x = 6, tile_y = 5, tile_z = 0 \<rparr>,
        new_TileComponent \<lparr> tile_type = FOREST, tile_x = 5, tile_y = 4, tile_z = 0 \<rparr>,
        new_TileComponent \<lparr> tile_type = MOUNTAIN, tile_x = 4, tile_y = 5, tile_z = 0 \<rparr>]] \<rparr>"

text \<open>The constructor of \<^verbatim>\<open>Player\<close> adds the components it is given and then runs
  \<^verbatim>\<open>initializeAnimationSystem\<close>, which returns at once when the getter \<^verbatim>\<open>animation\<close> finds
  nothing and otherwise installs a configuration for each animation type and direction.\<close>

definition animation_configs :: "AnimationConfig list" where
  "animation_configs =
     concat (map (\<lambda>t. map (\<lambda>d.
        \<lparr> cfg_type = t, cfg_direction = d,
          cfg_totalFrames = (if t = idle then 1 else 4),
          cfg_frameRate = (if t = idle then 1 else 8),
          cfg_isLooping = Some (t \<noteq> attack \<and> t \<noteq> cast) \<rparr>)
        [north, south, east, west]) [idle, walk, attack, cast])"

definition initializeAnimationSystem :: "Player \<Rightarrow> Player" where
  "initializeAnimationSystem p =
     (case animation p of
        None \<Rightarrow> p
      | Some a \<Rightarrow>
          p\<lparr>components :=
              Map_set ''Animation''
                (AnimationC (setAnimation idle south
                   (foldl (\<lambda>a config. addAnimation config a) a animation_configs)))
                (components p)\<rparr>)"

definition new_Player :: "string \<Rightarrow> string \<Rightarrow> CharacterClassType \<Rightarrow> Component list \<Rightarrow> Player" where
  "new_Player i n cls cs =
     initializeAnimationSystem
       (foldl (\<lambda>p c. addComponent c p)
          \<lparr> player_id = i, player_name = n, characterClass = cls, components = [] \<rparr> cs)"

text \<open>The player of the movement tests, with the position and the sprite component (the
  animation component of the tests cannot be built), moved to (5, 5, 0).\<close>

definition demo_player :: Player where
  "demo_player = setPosition 5 5 0 (new_Player ''test-player'' ''TestPlayer'' WARRIOR
     [PositionC (new_PositionComponent 0 0 0),
      SpriteC (new_SpriteComponent ''default_sprite'' 0 ''idle'')])"

text \<open>
  Two conditions used below. \<open>no_sprite_set\<close>: the sprite manager holds no sprite set for
  the player's class, so \<^verbatim>\<open>updateSpriteTexture\<close> finds no texture. \<open>idle_configured\<close>: the
  animation component has, under the key of \<^verbatim>\<open>idle\<close> and its current direction, a
  configuration of type \<^verbatim>\<open>idle\<close>, as the constructor of \<^verbatim>\<open>Player\<close> installs for an
  animation component it finds. \<open>with_animation f\<close> replaces the component found under
  \<^verbatim>\<open>'Animation'\<close>, if there is one, by its image under \<open>f\<close>.
\<close>

definition no_sprite_set :: "SpriteManager \<Rightarrow> Player \<Rightarrow> bool" where
  "no_sprite_set sm p = (Map_get (class_toLowerCase (characterClass p)) sm = None)"

definition idle_configured :: "AnimationComponent \<Rightarrow> bool" where
  "idle_configured a =
     (case Map_get (animation_key idle (st_direction (currentState a))) (configurations a) of
        Some config \<Rightarrow> cfg_type config = idle
      | None \<Rightarrow> False)"

definition with_animation :: "(AnimationComponent \<Rightarrow> AnimationComponent) \<Rightarrow> Player \<Rightarrow> Player" where
  "with_animation f p =
     (case animation p of
        Some a \<Rightarrow> p\<lparr>components := Map_set ''Animation'' (AnimationC (f a)) (components p)\<rparr>
      | None \<Rightarrow> p)"

text \<open>
  A player like \<open>demo_player\<close> that has, filed under \<^verbatim>\<open>'Animation'\<close>, an animation component
  in the state that the field initialisers and the constructor body of the class write,
  with the configurations \<^verbatim>\<open>initializeAnimationSystem\<close> installs. No call of the source
  builds such a component; the player shows what the movement code does where the getter
  \<^verbatim>\<open>animation\<close> finds one.
\<close>

definition animated_player :: Player where
  "animated_player =
     initializeAnimationSystem
       (demo_player\<lparr>components :=
          Map_set ''Animation''
            (AnimationC
               \<lparr> anim_entityId = [],
                 currentState =
                   \<lparr> st_type = idle, st_direction = south, currentFrame = 0, totalFrames = 1,
                     frameRate = 8, isLooping = True, isPlaying = True \<rparr>,
                 lastFrameTime = 0, configurations = [] \<rparr>)
            (components demo_player)\<rparr>)"

text \<open>The players after a move to the east.\<close>

definition moved :: "Player \<Rightarrow> Player" where
  "moved p = (case execute [] demo_map MoveEastCommand p of Inr (b, c, p') \<Rightarrow> p' | Inl e \<Rightarrow> p)"

definition MoveEastCommand_done :: MovementCommand where
  "MoveEastCommand_done = MoveEastCommand\<lparr>previousPosition := Some (5, 5, 0)\<rparr>"

section \<open>JavaScript values and JSON\<close>

text \<open>
  The values \<^verbatim>\<open>JSON.parse\<close> builds, and \<^verbatim>\<open>undefined\<close> for a property that is not there.
  Numbers are exact fractions.
\<close>

datatype jsval =
  JUndefined
| JNull
| JBool bool
| JNum rat
| JStr string
| JArr "jsval list"
| JObj "(string \<times> jsval) list"

fun truthy :: "jsval \<Rightarrow> bool" where
  "truthy JUndefined = False"
| "truthy JNull = False"
| "truthy (JBool b) = b"
| "truthy (JNum n) = (n \<noteq> 0)"
| "truthy (JStr s) = (s \<noteq> [])"
| "truthy (JArr xs) = True"
| "truthy (JObj fs) = True"

text \<open>
  The property read \<^verbatim>\<open>v.k\<close>, for the property names the memento code reads (\<^verbatim>\<open>id\<close>,
  \<^verbatim>\<open>state\<close>, \<^verbatim>\<open>metadata\<close>, \<^verbatim>\<open>version\<close>, \<^verbatim>\<open>statistics\<close>, \<^verbatim>\<open>totalPlayTime\<close> and the three
  parts of a state), none of which a prototype defines: it raises on \<^verbatim>\<open>undefined\<close> and
  \<^verbatim>\<open>null\<close>, finds an own property of an object, and is \<^verbatim>\<open>undefined\<close> otherwise.
\<close>

fun getProperty :: "jsval \<Rightarrow> string \<Rightarrow> error + jsval" where
  "getProperty JUndefined k = Inl TypeError"
| "getProperty JNull k = Inl TypeError"
| "getProperty (JObj fs) k = Inr (case Map_get k fs of Some v \<Rightarrow> v | None \<Rightarrow> JUndefined)"
| "getProperty (JBool b) k = Inr JUndefined"
| "getProperty (JNum n) k = Inr JUndefined"
| "getProperty (JStr s) k = Inr JUndefined"
| "getProperty (JArr xs) k = Inr JUndefined"

text \<open>The own enumerable properties an object spread \<^verbatim>\<open>{...v}\<close> copies: those of an
  object, the indexed elements of an array or a string, nothing of any other value.\<close>

fun spread :: "jsval \<Rightarrow> (string \<times> jsval) list" where
  "spread (JObj fs) = fs"
| "spread (JArr xs) = zip (map show_nat [0..<length xs]) xs"
| "spread (JStr s) = zip (map show_nat [0..<length s]) (map (\<lambda>ch. JStr [ch]) s)"
| "spread JUndefined = []"
| "spread JNull = []"
| "spread (JBool b) = []"
| "spread (JNum n) = []"

section \<open>The memento\<close>

text \<open>
  \<^verbatim>\<open>GameState\<close> and \<^verbatim>\<open>MementoMetadata\<close> are plain objects; what \<^verbatim>\<open>fromJSON\<close> passes to
  the constructor is whatever the text held, so both are kept as property lists.
\<close>

record GameMemento =
  memento_id :: jsval
  timestamp :: int
  version :: jsval
  state :: "(string \<times> jsval) list"
  metadata :: "(string \<times> jsval) list"

text \<open>The constructor; \<open>now\<close> is the reading of \<^verbatim>\<open>Date.now()\<close> it takes. The default
  \<^verbatim>\<open>'1.0.0'\<close> replaces a version argument that is \<^verbatim>\<open>undefined\<close>.\<close>

definition new_GameMemento :: "int \<Rightarrow> jsval \<Rightarrow> jsval \<Rightarrow> jsval \<Rightarrow> jsval \<Rightarrow> GameMemento" where
  "new_GameMemento now i st md v =
     \<lparr> memento_id = i,
       timestamp = now,
       version = (if v = JUndefined then JStr ''1.0.0'' else v),
       state = Map_set ''timestamp'' (JNum (of_int now)) (spread st),
       metadata = Map_set ''timestamp'' (JNum (of_int now)) (spread md) \<rparr>"

definition memento_object :: "GameMemento \<Rightarrow> jsval" where
  "memento_object m =
     JObj [(''id'', memento_id m), (''timestamp'', JNum (of_int (timestamp m))),
           (''version'', version m), (''state'', JObj (state m)),
           (''metadata'', JObj (metadata m))]"

text \<open>\<^verbatim>\<open>JSON.stringify\<close> and \<^verbatim>\<open>JSON.parse\<close> belong to the runtime and are parameters;
  \<open>parse\<close> gives \<open>None\<close> for a text that is not JSON (a \<^verbatim>\<open>SyntaxError\<close>).\<close>

definition toJSON :: "(jsval \<Rightarrow> string) \<Rightarrow> GameMemento \<Rightarrow> string" where
  "toJSON stringify m = stringify (memento_object m)"

definition fromJSON :: "(string \<Rightarrow> jsval option) \<Rightarrow> int \<Rightarrow> string \<Rightarrow> error + GameMemento" where
  "fromJSON parse now json =
     (case parse json of
        None \<Rightarrow> Inl SyntaxError
      | Some data \<Rightarrow>
          (case (getProperty data ''id'', getProperty data ''state'',
                 getProperty data ''metadata'', getProperty data ''version'') of
             (Inr i, Inr st, Inr md, Inr v) \<Rightarrow> Inr (new_GameMemento now i st md v)
           | _ \<Rightarrow> Inl TypeError))"

definition state_prop :: "GameMemento \<Rightarrow> string \<Rightarrow> jsval" where
  "state_prop m k = (case Map_get k (state m) of Some v \<Rightarrow> v | None \<Rightarrow> JUndefined)"

definition isValid :: "GameMemento \<Rightarrow> bool" where
  "isValid m =
     (truthy (memento_id m) \<and> timestamp m > 0 \<and> truthy (version m)
      \<and> truthy (JObj (state m)) \<and> truthy (JObj (metadata m))
      \<and> truthy (state_prop m ''player'') \<and> truthy (state_prop m ''map'')
      \<and> truthy (state_prop m ''inventory''))"

definition isCompatible :: "GameMemento \<Rightarrow> string \<Rightarrow> bool" where
  "isCompatible m currentVersion = (version m = JStr currentVersion)"

section \<open>The originator\<close>

record GameOriginator =
  currentGameState :: "(string \<times> jsval) list option"
  originator_version :: string

definition new_GameOriginator :: GameOriginator where
  "new_GameOriginator = \<lparr> currentGameState = None, originator_version = ''1.0.0'' \<rparr>"

definition setState :: "(string \<times> jsval) list \<Rightarrow> GameOriginator \<Rightarrow> GameOriginator" where
  "setState st orig = orig\<lparr>currentGameState := Some st\<rparr>"

text \<open>
  The readings of the clock and of the random generator that one \<^verbatim>\<open>createMemento\<close>
  takes: \<^verbatim>\<open>Date.now()\<close> and \<^verbatim>\<open>Math.random()\<close> in \<^verbatim>\<open>generateSaveId\<close>, \<^verbatim>\<open>Date.now()\<close> for
  the metadata, and \<^verbatim>\<open>Date.now()\<close> in the constructor of the memento.
\<close>

record save_env =
  id_now :: int
  id_random :: string
  metadata_now :: int
  constructor_now :: int

definition generateSaveId :: "save_env \<Rightarrow> string" where
  "generateSaveId env = ''save_'' @ show_int (id_now env) @ ''_'' @ id_random env"

text \<open>\<^verbatim>\<open>player.level || 1\<close>: a \<^verbatim>\<open>Player\<close> has no property \<^verbatim>\<open>level\<close>, so the level is 1.\<close>

definition createMemento ::
  "save_env \<Rightarrow> string \<Rightarrow> Player \<Rightarrow> GameMap \<Rightarrow> GameOriginator \<Rightarrow> error + GameMemento" where
  "createMemento env saveName player m orig =
     (case currentGameState orig of
        None \<Rightarrow> Inl (Error ''No current game state to save'')
      | Some st \<Rightarrow>
          (case getProperty (case Map_get ''statistics'' st of Some v \<Rightarrow> v | None \<Rightarrow> JUndefined)
                  ''totalPlayTime'' of
             Inl e \<Rightarrow> Inl e
           | Inr playTime \<Rightarrow>
               (let md =
                  [(''id'', JStr (generateSaveId env)),
                   (''timestamp'', JNum (of_int (metadata_now env))),
                   (''version'', JStr (originator_version orig)),
                   (''saveName'', JStr saveName),
                   (''playerName'', JStr (player_name player)),
                   (''characterClass'', JStr (class_text (characterClass player))),
                   (''playTime'', playTime),
                   (''level'', JNum 1),
                   (''location'', JStr (map_name m @ '' ('' @ show_int (getX player) @ '', ''
                                        @ show_int (getY player) @ '')'')),
                   (''description'', JStr (''Level '' @ show_int 1 @ '' ''
                                        @ class_text (characterClass player) @ '' - '' @ saveName))]
                in Inr (new_GameMemento (constructor_now env) (JStr (generateSaveId env))
                          (JObj st) (JObj md) (JStr (originator_version orig))))))"

section \<open>The caretaker\<close>

text \<open>
  \<^verbatim>\<open>GameMemento.ts\<close> begins with \<^verbatim>\<open>import { Map } from '@domain/entity/Map'\<close>, and the
  imported name hides the built-in \<^verbatim>\<open>Map\<close> in the whole file. The save set of a caretaker,
  \<^verbatim>\<open>this.mementos = new Map()\<close>, is therefore a game map, built with no arguments:
  \<^verbatim>\<open>instanceof Map\<close> holds of it, so the constructor of the caretaker keeps it.

  What a read of a property of that object gives. Its methods are those of the classes
  \<^verbatim>\<open>Map\<close>, \<^verbatim>\<open>MapComposite\<close> and \<^verbatim>\<open>MapComponent\<close> and the functions every object inherits from
  \<^verbatim>\<open>Object.prototype\<close>. The constructor chain stores the arguments \<^verbatim>\<open>name\<close>, \<^verbatim>\<open>width\<close> and
  \<^verbatim>\<open>height\<close>, all \<^verbatim>\<open>undefined\<close> here, and 0 for \<^verbatim>\<open>x\<close> and \<^verbatim>\<open>y\<close>; the three lists start
  empty; the tile factory, the accessor \<^verbatim>\<open>bounds\<close> and \<^verbatim>\<open>__proto__\<close> are objects. Every
  other name, and so each of \<^verbatim>\<open>set\<close>, \<^verbatim>\<open>get\<close>, \<^verbatim>\<open>has\<close>, \<^verbatim>\<open>delete\<close>, \<^verbatim>\<open>clear\<close>, \<^verbatim>\<open>size\<close>,
  \<^verbatim>\<open>values\<close> and \<^verbatim>\<open>entries\<close>, reads as \<^verbatim>\<open>undefined\<close>.
\<close>

datatype MapEntity = New_Map

datatype property = Undefined | Function | Number rat | EmptyArray | Object

definition MapEntity_methods :: "string list" where
  "MapEntity_methods =
     [''createLayer'', ''createRegion'', ''generateRandomMap'', ''addWaterFeatures'',
      ''addMountainFeatures'', ''isWalkable'', ''isSwimable'', ''getMovementCost'',
      ''getElevation'', ''setTileAt'', ''getWalkablePositions'', ''getRandomWalkablePosition'',
      ''getMapStats'', ''render'', ''toString'',
      ''add'', ''remove'', ''getChild'', ''getChildren'', ''getChildCount'', ''getTile'',
      ''setTile'', ''getTilesInArea'', ''findPath'', ''getWalkableTiles'', ''getTilesByType'',
      ''isWithinBounds'']
     @ remove1 ''__proto__'' objectPrototypeKeys"

definition getMember :: "MapEntity \<Rightarrow> string \<Rightarrow> property" where
  "getMember obj name =
     (if name \<in> set MapEntity_methods then Function
      else if name \<in> set [''_x'', ''_y'', ''x'', ''y''] then Number 0
      else if name \<in> set [''_children'', ''_regions'', ''_layers''] then EmptyArray
      else if name \<in> set [''_tileFactory'', ''bounds'', ''__proto__''] then Object
      else Undefined)"

text \<open>The number a comparison makes of such a value; \<open>None\<close> is \<open>NaN\<close>.\<close>

fun toNumber :: "property \<Rightarrow> rat option" where
  "toNumber Undefined = None"
| "toNumber Function = None"
| "toNumber (Number n) = Some n"
| "toNumber EmptyArray = Some 0"
| "toNumber Object = None"

text \<open>
  A call \<^verbatim>\<open>obj.name(...)\<close> raises a \<^verbatim>\<open>TypeError\<close> unless the property is a function. The
  caretaker calls no method that the game map has, so what those methods do is not
  followed: past a call that goes through, the functions below only keep to the order of
  the statements of the source.
\<close>

definition callMethod :: "MapEntity \<Rightarrow> string \<Rightarrow> error + unit" where
  "callMethod obj name = (if getMember obj name = Function then Inr () else Inl TypeError)"

record GameCaretaker =
  mementos :: MapEntity
  originator :: GameOriginator
  maxSaves :: int
  autoSaveInterval :: int
  lastAutoSave :: int

definition new_GameCaretaker :: "GameOriginator \<Rightarrow> GameCaretaker" where
  "new_GameCaretaker orig =
     \<lparr> mementos = New_Map, originator = orig, maxSaves = 10, autoSaveInterval = 300000,
       lastAutoSave = 0 \<rparr>"

text \<open>\<^verbatim>\<open>getSaveCount\<close> returns \<^verbatim>\<open>this.mementos.size\<close>.\<close>

definition getSaveCount :: "GameCaretaker \<Rightarrow> property" where
  "getSaveCount c = getMember (mementos c) ''size''"

text \<open>
  A method that can raise returns the exception or its result, and the caretaker as the
  call left it.

  \<^verbatim>\<open>cleanupOldSaves\<close> returns when \<^verbatim>\<open>this.mementos.size <= this.maxSaves\<close>, which is false of a
  size that is not a number, and calls \<^verbatim>\<open>this.mementos.entries()\<close> otherwise.
\<close>

definition cleanupOldSaves :: "GameCaretaker \<Rightarrow> (error + unit) \<times> GameCaretaker" where
  "cleanupOldSaves c =
     (if (case toNumber (getMember (mementos c) ''size'') of
            Some n \<Rightarrow> n \<le> of_int (maxSaves c)
          | None \<Rightarrow> False)
      then (Inr (), c)
      else
        case callMethod (mementos c) ''entries'' of
          Inl e \<Rightarrow> (Inl e, c)
        | Inr u \<Rightarrow> (Inr (), c))"

definition saveGame ::
  "save_env \<Rightarrow> string \<Rightarrow> Player \<Rightarrow> GameMap \<Rightarrow> GameCaretaker \<Rightarrow> (error + GameMemento) \<times> GameCaretaker" where
  "saveGame env saveName player m c =
     (case createMemento env saveName player m (originator c) of
        Inl e \<Rightarrow> (Inl e, c)
      | Inr memento \<Rightarrow>
          (case callMethod (mementos c) ''set'' of
             Inl e \<Rightarrow> (Inl e, c)
           | Inr u \<Rightarrow>
               (case cleanupOldSaves c of
                  (Inl e, c') \<Rightarrow> (Inl e, c')
                | (Inr u', c') \<Rightarrow> (Inr memento, c'))))"

text \<open>\<open>now\<close> is the reading of \<^verbatim>\<open>Date.now()\<close> that \<^verbatim>\<open>autoSave\<close> takes; the result \<open>None\<close> is
  \<^verbatim>\<open>null\<close>.\<close>

definition autoSave ::
  "int \<Rightarrow> save_env \<Rightarrow> Player \<Rightarrow> GameMap \<Rightarrow> GameCaretaker
   \<Rightarrow> (error + GameMemento option) \<times> GameCaretaker" where
  "autoSave now env player m c =
     (if now - lastAutoSave c < autoSaveInterval c then (Inr None, c)
      else
        case saveGame env ''Auto Save'' player m (c\<lparr>lastAutoSave := now\<rparr>) of
          (Inl e, c') \<Rightarrow> (Inl e, c')
        | (Inr memento, c') \<Rightarrow> (Inr (Some memento), c'))"

definition setMaxSaves :: "int \<Rightarrow> GameCaretaker \<Rightarrow> (error + unit) \<times> GameCaretaker" where
  "setMaxSaves n c = cleanupOldSaves (c\<lparr>maxSaves := max 1 n\<rparr>)"

definition setAutoSaveInterval :: "int \<Rightarrow> GameCaretaker \<Rightarrow> GameCaretaker" where
  "setAutoSaveInterval interval c = c\<lparr>autoSaveInterval := max 60000 interval\<rparr>"

text \<open>
  \<^verbatim>\<open>importSaves\<close>. An element of the parsed array goes to \<^verbatim>\<open>JSON.parse\<close>, which takes a
  string as it is and any other value through the runtime's conversion to a string,
  \<open>toString\<close>. \<open>clock i\<close> is the reading of \<^verbatim>\<open>Date.now()\<close> while element \<open>i\<close> is handled.
  The inner \<^verbatim>\<open>try\<close> catches what \<^verbatim>\<open>fromJSON\<close> and \<^verbatim>\<open>this.mementos.set\<close> raise and writes a
  warning; an element whose memento is not valid passes without one. The warnings are
  kept, each with the exception it reports, in the order \<^verbatim>\<open>console.warn\<close> prints them.
\<close>

type_synonym warning = "string \<times> error"

definition import_entry ::
  "(string \<Rightarrow> jsval option) \<Rightarrow> (jsval \<Rightarrow> string) \<Rightarrow> (nat \<Rightarrow> int)
   \<Rightarrow> GameCaretaker \<times> warning list \<Rightarrow> nat \<times> jsval \<Rightarrow> GameCaretaker \<times> warning list" where
  "import_entry parse toString clock cw entry =
     (case (cw, entry) of ((c, warnings), (i, saveJson)) \<Rightarrow>
        (case fromJSON parse (clock i) (case saveJson of JStr s \<Rightarrow> s | v \<Rightarrow> toString v) of
           Inl mementoError \<Rightarrow>
             (c, warnings @ [(''Failed to import individual save:'', mementoError)])
         | Inr memento \<Rightarrow>
             if isValid memento
             then (case callMethod (mementos c) ''set'' of
                     Inl mementoError \<Rightarrow>
                       (c, warnings @ [(''Failed to import individual save:'', mementoError)])
                   | Inr u \<Rightarrow> (c, warnings))
             else (c, warnings)))"

text \<open>
  A text that does not parse raises a \<^verbatim>\<open>SyntaxError\<close> inside the outer \<^verbatim>\<open>try\<close>, a parsed
  value that is no array has no \<^verbatim>\<open>forEach\<close> and raises a \<^verbatim>\<open>TypeError\<close> there, and so does
  a \<^verbatim>\<open>cleanupOldSaves\<close> that raises. The \<^verbatim>\<open>catch\<close> writes a warning and replaces the save set
  by a \<^verbatim>\<open>new Map()\<close>.
\<close>

definition importSaves ::
  "(string \<Rightarrow> jsval option) \<Rightarrow> (jsval \<Rightarrow> string) \<Rightarrow> (nat \<Rightarrow> int) \<Rightarrow> string
   \<Rightarrow> GameCaretaker \<Rightarrow> GameCaretaker \<times> warning list" where
  "importSaves parse toString clock json c =
     (let reset = (\<lambda>e c' warnings.
            (c'\<lparr>mementos := New_Map\<rparr>,
             warnings @ [(''Failed to import saves, resetting mementos:'', e)]))
      in case parse json of
           None \<Rightarrow> reset SyntaxError c []
         | Some (JArr saves) \<Rightarrow>
             (case foldl (import_entry parse toString clock) (c, []) (enumerate 0 saves) of
                (c1, warnings) \<Rightarrow>
                  (case cleanupOldSaves c1 of
                     (Inl e, c2) \<Rightarrow> reset e c2 warnings
                   | (Inr u, c2) \<Rightarrow> (c2, warnings)))
         | Some v \<Rightarrow> reset TypeError c [])"

text \<open>A run of \<^verbatim>\<open>saveGame\<close> calls, each with its save name, player, map and the readings
  it takes; an exception ends the run.\<close>

type_synonym save_call = "save_env \<times> string \<times> Player \<times> GameMap"

fun save_all :: "save_call list \<Rightarrow> GameCaretaker \<Rightarrow> error + GameCaretaker" where
  "save_all [] c = Inr c"
| "save_all ((env, saveName, player, m) # rest) c =
     (case saveGame env saveName player m c of
        (Inl e, c') \<Rightarrow> Inl e
      | (Inr memento, c') \<Rightarrow> save_all rest c')"

text \<open>A state whose \<^verbatim>\<open>statistics.totalPlayTime\<close> can be read, as that of every
  \<^verbatim>\<open>GameState\<close> can: \<^verbatim>\<open>createMemento\<close> raises a \<^verbatim>\<open>TypeError\<close> on any other.\<close>

definition has_statistics :: "(string \<times> jsval) list \<Rightarrow> bool" where
  "has_statistics st =
     (case getProperty (case Map_get ''statistics'' st of Some v \<Rightarrow> v | None \<Rightarrow> JUndefined)
             ''totalPlayTime'' of
        Inr playTime \<Rightarrow> True
      | Inl e \<Rightarrow> False)"

definition holds_state :: "GameOriginator \<Rightarrow> bool" where
  "holds_state orig = (case currentGameState orig of Some st \<Rightarrow> has_statistics st | None \<Rightarrow> False)"

text \<open>What \<^verbatim>\<open>importSaves\<close> is specified to import: the mementos of the elements whose
  \<^verbatim>\<open>fromJSON\<close> does not raise and whose memento is valid, in the order of the array.\<close>

definition entry_memento ::
  "(string \<Rightarrow> jsval option) \<Rightarrow> (jsval \<Rightarrow> string) \<Rightarrow> (nat \<Rightarrow> int) \<Rightarrow> nat \<times> jsval
   \<Rightarrow> GameMemento option" where
  "entry_memento parse toString clock entry =
     (case fromJSON parse (clock (fst entry))
             (case snd entry of JStr s \<Rightarrow> s | v \<Rightarrow> toString v) of
        Inl e \<Rightarrow> None
      | Inr memento \<Rightarrow> if isValid memento then Some memento else None)"

definition imported_mementos ::
  "(string \<Rightarrow> jsval option) \<Rightarrow> (jsval \<Rightarrow> string) \<Rightarrow> (nat \<Rightarrow> int) \<Rightarrow> jsval list
   \<Rightarrow> GameMemento list" where
  "imported_mementos parse toString clock saves =
     List.map_filter (entry_memento parse toString clock) (enumerate 0 saves)"

subsection \<open>A small save scenario\<close>

definition demo_state :: "(string \<times> jsval) list" where
  "demo_state =
     [(''player'', JObj [(''name'', JStr ''TestPlayer''), (''level'', JNum 1)]),
      (''map'', JObj [(''name'', JStr ''TestMap''), (''width'', JNum 10), (''height'', JNum 10)]),
      (''inventory'', JObj [(''items'', JArr []), (''gold'', JNum 0)]),
      (''gameSettings'', JObj []),
      (''statistics'', JObj [(''totalPlayTime'', JNum 0)]),
      (''quests'', JObj []),
      (''timestamp'', JNum 0)]"

text \<open>A new caretaker whose originator holds that state; it keeps ten saves.\<close>

definition demo_caretaker :: GameCaretaker where
  "demo_caretaker = new_GameCaretaker (setState demo_state new_GameOriginator)"

definition demo_env :: "int \<Rightarrow> string \<Rightarrow> save_env" where
  "demo_env t r = \<lparr> id_now = t, id_random = r, metadata_now = t, constructor_now = t \<rparr>"

definition demo_calls :: "save_call list" where
  "demo_calls =
     [(demo_env 1000 ''a'', ''S1'', demo_player, demo_map),
      (demo_env 2000 ''b'', ''S2'', demo_player, demo_map),
      (demo_env 3000 ''c'', ''S3'', demo_player, demo_map)]"

text \<open>The memento saved at time 1000.\<close>

definition demo_memento :: GameMemento where
  "demo_memento =
     new_GameMemento 1000 (JStr ''save_1000_a'') (JObj demo_state)
       (JObj [(''id'', JStr ''save_1000_a''), (''timestamp'', JNum 1000),
              (''version'', JStr ''1.0.0''), (''saveName'', JStr ''S1'')])
       (JStr ''1.0.0'')"

text \<open>
  A stand-in for the runtime's JSON functions on five texts: \<open>SAVES\<close> is an array of four
  elements, the texts \<open>GOOD\<close>, \<open>BROKEN\<close> and \<open>NOSTATE\<close> and the number 5; \<open>GOOD\<close> is the
  serialised \<open>demo_memento\<close>, \<open>NOSTATE\<close> an object with an id only, and \<open>BROKEN\<close> (like
  every other text) is not JSON. The number 5 converts to the text \<open>5\<close>, which parses to
  the number again.
\<close>

definition demo_stringify :: "jsval \<Rightarrow> string" where
  "demo_stringify v = (if v = memento_object demo_memento then ''GOOD'' else ''OTHER'')"

definition demo_parse :: "string \<Rightarrow> jsval option" where
  "demo_parse s =
     (if s = ''SAVES'' then Some (JArr [JStr ''GOOD'', JStr ''BROKEN'', JStr ''NOSTATE'', JNum 5])
      else if s = ''GOOD'' then Some (memento_object demo_memento)
      else if s = ''NOSTATE'' then Some (JObj [(''id'', JStr ''save_9_z'')])
      else if s = ''5'' then Some (JNum 5)
      else None)"

definition demo_toString :: "jsval \<Rightarrow> string" where
  "demo_toString v = (if v = JNum 5 then ''5'' else ''[object Object]'')"

section \<open>Properties of the item decorators\<close>

text \<open>
  C9, as the code has it. \<^verbatim>\<open>EnchantedItemDecorator.getValue()\<close> is the base item's value
  plus fifty gold for every bonus point, where the bonus is
  \<open>floor (enchantmentLevel * 2 * typeMultiplier)\<close> and \<open>enchantmentLevel\<close> is the requested
  level clamped to the range from 1 to 10. For an enchantment type whose multiplier is not a
  number (a name inherited from \<^verbatim>\<open>Object.prototype\<close>) the value is not a number either.
\<close>

theorem Enchanted_getValue_adds_fifty_per_bonus_point:
  "Enchanted_getValue (new_EnchantedItemDecorator i t level)
     = map_option (\<lambda>typeMultiplier.
          item_value i + 50 * \<lfloor>of_int (max 1 (min 10 level)) * 2 * typeMultiplier\<rfloor>)
         (getEnchantmentTypeMultiplier t)
   \<and> enchantmentLevel (new_EnchantedItemDecorator i t level) = max 1 (min 10 level)
   \<and> 1 \<le> enchantmentLevel (new_EnchantedItemDecorator i t level)
   \<and> enchantmentLevel (new_EnchantedItemDecorator i t level) \<le> 10"
  by (simp add: Enchanted_getValue_def new_EnchantedItemDecorator_def
      calculateEnchantmentBonus_def Let_def option.map_comp comp_def mult.commute)

text \<open>
  C9, as the specification words it, fails: an iron sword (value 50) with a fire
  enchantment of level 3 has bonus \<open>floor (3 * 2 * 1.5) = 9\<close>; the specification's formula
  gives \<open>50 + 9 = 59\<close>, the method returns \<open>50 + 9 * 50 = 500\<close>.
\<close>

theorem Enchanted_getValue_counterexample:
  "getEnchantmentTypeMultiplier ''fire'' = Some (3 / 2)
   \<and> Enchanted_getValue (new_EnchantedItemDecorator sword_iron ''fire'' 3) = Some 500
   \<and> item_value sword_iron + \<lfloor>of_int (max 1 (min 10 3)) * (3 / 2 :: rat) * 2\<rfloor> = 59"
  by (simp add: Enchanted_getValue_def new_EnchantedItemDecorator_def
      calculateEnchantmentBonus_def getEnchantmentTypeMultiplier_def multipliers_def
      sword_iron_def Let_def)

text \<open>
  Every branch of \<^verbatim>\<open>createEnhancedItem\<close> decorates the base item, not the result of the
  branch before it, so a requested enchantment discards whatever the earlier branches
  built.
\<close>

lemma createEnhancedItem_enchantment_discards_rest:
  "createEnhancedItem i (e\<lparr>enchantment := Some (t, level)\<rparr>)
     = Enchanted (new_EnchantedItemDecorator i t level)"
  by (simp add: createEnhancedItem_def Let_def)

text \<open>
  C8 at two inputs. The first is the input of the repository's test
  \<^verbatim>\<open>should create enhanced item with multiple decorators\<close>, which expects the display
  name to contain \<^verbatim>\<open>Masterwork\<close> and the durability to be 200; the second asks for a
  legendary effect and an enchantment. Both results are the enchantment decorator around
  the bare iron sword: the name is \<^verbatim>\<open>Flaming Iron Sword\<close>, the durability is the default
  100, and the value is \<open>50 + 15 * 50 = 800\<close>, which does not contain the legendary factor
  5 (a legendary iron sword alone is worth 250).
\<close>

theorem createEnhancedItem_keeps_last_decorator_only:
  "createEnhancedItem sword_iron
      \<lparr> enchantment = Some (''fire'', 5), durability = Some 200, masterwork = Some True,
        legendary = None \<rparr>
     = Enchanted (new_EnchantedItemDecorator sword_iron ''fire'' 5)
   \<and> createEnhancedItem sword_iron
      \<lparr> enchantment = Some (''fire'', 5), durability = None, masterwork = None,
        legendary = Some ''Dragon Slayer'' \<rparr>
     = Enchanted (new_EnchantedItemDecorator sword_iron ''fire'' 5)
   \<and> ench_item (new_EnchantedItemDecorator sword_iron ''fire'' 5) = sword_iron
   \<and> Enchanted_getDisplayName (new_EnchantedItemDecorator sword_iron ''fire'' 5)
       = ''Flaming Iron Sword''
   \<and> Enchanted_getValue (new_EnchantedItemDecorator sword_iron ''fire'' 5) = Some 800
   \<and> getDurability (Enchanted (new_EnchantedItemDecorator sword_iron ''fire'' 5)) = Inr 100
   \<and> Legendary_getValue (new_LegendaryItemDecorator sword_iron ''Dragon Slayer'') = 250"
  by (simp add: createEnhancedItem_def Let_def Enchanted_getDisplayName_def
      Enchanted_getValue_def new_EnchantedItemDecorator_def calculateEnchantmentBonus_def
      getEnchantmentTypeMultiplier_def multipliers_def getEnchantmentPrefix_def prefixes_def
      Legendary_getValue_def new_LegendaryItemDecorator_def sword_iron_def)

section \<open>Properties of the inventory component\<close>

lemma show_nat_digit: "n < 10 \<Longrightarrow> show_nat n = [''0123456789'' ! n]"
  by (simp add: show_nat.simps)

lemma full_potion_inventory_eq:
  "full_potion_inventory = \<lparr> entityId = [], items = [],
       newItems = [(''potion_health_1_a'',
          \<lparr> inst_item = potion_health, quantity = 3, uniqueId = ''potion_health_1_a'' \<rparr>)],
       maxCapacity = 1, gold = 0,
       emitted = [\<lparr> ev_entityId = [], ev_eventType = item_added,
           ev_message = ''Added 3 Health Potion'',
           ev_item = Some \<lparr> inst_item = potion_health, quantity = 3,
                             uniqueId = ''potion_health_1_a'' \<rparr>,
           ev_quantity = Some 3, ev_gold = None \<rparr>] \<rparr>"
  by (simp add: full_potion_inventory_def addItemInstance_def new_InventoryComponent_def
      isFull_def currentCapacity_def Map_size_def Map_has_def findItemByItemId_def
      Map_values_def Map_set_def emitInventoryEvent_def Let_def show_int_def show_nat_digit
      potion_health_def)

text \<open>
  C7 at a full inventory. The inventory holds one stack of three health potions (stackable,
  at most 99 to a stack) and has capacity one. A second instance of two health potions,
  with an instance id of its own as \<^verbatim>\<open>createInstance\<close> gives every instance, fits the
  stack; \<^verbatim>\<open>addItemInstance\<close> returns \<^verbatim>\<open>false\<close> and leaves the stack as it was, because
  its capacity guard looks the instance id up, not the item id.
\<close>

theorem addItemInstance_full_rejects_stackable:
  "isFull full_potion_inventory
   \<and> findItemByItemId ''potion_health'' full_potion_inventory
       = Some \<lparr> inst_item = potion_health, quantity = 3, uniqueId = ''potion_health_1_a'' \<rparr>
   \<and> stackable potion_health \<and> 3 + 2 \<le> maxStack potion_health
   \<and> fst (addItemInstance
            \<lparr> inst_item = potion_health, quantity = 2, uniqueId = ''potion_health_2_b'' \<rparr>
            full_potion_inventory) = False
   \<and> newItems (snd (addItemInstance
            \<lparr> inst_item = potion_health, quantity = 2, uniqueId = ''potion_health_2_b'' \<rparr>
            full_potion_inventory)) = newItems full_potion_inventory"
  by (simp add: full_potion_inventory_eq addItemInstance_def isFull_def currentCapacity_def
      Map_size_def Map_has_def findItemByItemId_def Map_values_def emitInventoryEvent_def
      potion_health_def)

text \<open>The guard rejects every instance whose id is not yet a key, whatever stacks exist.\<close>

lemma addItemInstance_full_new_id:
  "isFull s \<Longrightarrow> \<not> Map_has (uniqueId itemInstance) (newItems s) \<Longrightarrow>
   fst (addItemInstance itemInstance s) = False
   \<and> newItems (snd (addItemInstance itemInstance s)) = newItems s"
  by (simp add: addItemInstance_def emitInventoryEvent_def)

text \<open>The legacy method \<^verbatim>\<open>addItem\<close> guards with the item id and does merge into a stack
  of a full inventory.\<close>

lemma addItem_full_merges:
  "isFull s \<Longrightarrow> Map_get (legacy_id item) (items s) = Some existingItem \<Longrightarrow>
   legacy_quantity existingItem + legacy_quantity item \<le> legacy_maxStack existingItem \<Longrightarrow>
   fst (addItem item s) = True"
  by (auto simp add: addItem_def Map_has_def Map_get_def Let_def dest: map_of_SomeD
      intro: rev_image_eqI)

subsection \<open>Gold\<close>

lemma gold_emitInventoryEvent [simp]: "gold (emitInventoryEvent ty msg it q g s) = gold s"
  by (simp add: emitInventoryEvent_def)

lemma gold_updateItemQuantity [simp]: "gold (updateItemQuantity uid n s) = gold s"
  by (simp add: updateItemQuantity_def split: option.split)

lemma gold_addItem [simp]: "gold (snd (addItem item s)) = gold s"
  by (simp add: addItem_def Let_def split: option.split)

lemma gold_addItemInstance [simp]: "gold (snd (addItemInstance it s)) = gold s"
  by (simp add: addItemInstance_def Let_def split: option.split)

lemma gold_addItemById [simp]: "gold (snd (addItemById now rnd i q s)) = gold s"
  by (simp add: addItemById_def split: option.split)

lemma gold_removeItem [simp]: "gold (snd (removeItem i q s)) = gold s"
  by (simp add: removeItem_def split: option.split)

lemma gold_removeItemInstance [simp]: "gold (snd (removeItemInstance u q s)) = gold s"
  by (simp add: removeItemInstance_def split: option.split)

lemma gold_removeItemById [simp]: "gold (snd (removeItemById i q s)) = gold s"
  by (simp add: removeItemById_def split: option.split)

lemma gold_addGold: "gold (addGold amount s) = gold s + max 0 amount"
  by (simp add: addGold_def Let_def)

lemma gold_removeGold:
  "gold (snd (removeGold amount s)) = (if gold s \<ge> amount then gold s - amount else gold s)"
  by (simp add: removeGold_def Let_def)

lemma apply_op_gold_nonneg: "0 \<le> gold s \<Longrightarrow> 0 \<le> gold (apply_op s x)"
  by (cases x) (simp_all add: gold_addGold gold_removeGold clear_def)

lemma run_ops_gold_nonneg: "0 \<le> gold s \<Longrightarrow> 0 \<le> gold (run_ops s ops)"
  unfolding run_ops_def
  by (induction ops arbitrary: s) (simp_all add: apply_op_gold_nonneg)

text \<open>
  C10. \<^verbatim>\<open>addGold\<close> with a negative amount leaves the gold as it is and still emits one
  \<^verbatim>\<open>gold_changed\<close> event; \<^verbatim>\<open>removeGold\<close> with more than the current gold returns
  \<^verbatim>\<open>false\<close> and changes nothing (no event either); \<^verbatim>\<open>clear\<close> sets the gold to 0; every
  operation keeps a non-negative gold non-negative; a new component has gold 0; so the gold
  is non-negative after any sequence of operations on a new component.
\<close>

theorem gold_never_negative:
  "(a < 0 \<longrightarrow> gold (addGold a s) = gold s
       \<and> emitted (addGold a s) = emitted s @
           [\<lparr> ev_entityId = entityId s, ev_eventType = gold_changed,
              ev_message = ''Added '' @ show_int a @ '' gold'', ev_item = None,
              ev_quantity = None, ev_gold = Some (gold s) \<rparr>])
   \<and> (gold s < b \<longrightarrow> removeGold b s = (False, s))
   \<and> gold (clear s) = 0
   \<and> (0 \<le> gold s \<longrightarrow> 0 \<le> gold (apply_op s x))
   \<and> gold (new_InventoryComponent cap) = 0
   \<and> 0 \<le> gold (run_ops (new_InventoryComponent cap) ops)"
proof -
  have "0 \<le> gold (run_ops (new_InventoryComponent cap) ops)"
    by (rule run_ops_gold_nonneg) (simp add: new_InventoryComponent_def)
  then show ?thesis
    by (simp add: gold_addGold apply_op_gold_nonneg removeGold_def clear_def
        new_InventoryComponent_def addGold_def emitInventoryEvent_def Let_def)
qed

theorem gold_never_negative_witness:
  "(-5 :: int) < 0 \<and> gold (addGold (-5) (new_InventoryComponent 20)) = 0
   \<and> gold (new_InventoryComponent 20) < 7
   \<and> removeGold 7 (new_InventoryComponent 20) = (False, new_InventoryComponent 20)
   \<and> 0 \<le> gold (new_InventoryComponent 20)
   \<and> 0 \<le> gold (apply_op (new_InventoryComponent 20) (RemoveGold 7))
   \<and> 0 \<le> gold (run_ops (new_InventoryComponent 20)
                  [AddGold 100, RemoveGold 30, AddGold (-4), RemoveGold 500, Clear, AddGold 1])"
  using gold_never_negative [of "-5" "new_InventoryComponent 20" 7 "RemoveGold 7" 20
      "[AddGold 100, RemoveGold 30, AddGold (-4), RemoveGold 500, Clear, AddGold 1]"]
  by (simp add: new_InventoryComponent_def)

section \<open>Properties of the movement commands\<close>

lemma map_of_replace_other:
  "k' \<noteq> k \<Longrightarrow>
   map_of (map (\<lambda>(k', v'). if k' = k then (k', v) else (k', v')) m) k' = map_of m k'"
  by (induction m) (auto split: if_splits)

lemma map_of_replace_same:
  "k \<in> fst ` set m \<Longrightarrow>
   map_of (map (\<lambda>(k', v'). if k' = k then (k', v) else (k', v')) m) k = Some v"
proof (induction m)
  case Nil
  then show ?case by simp
next
  case (Cons a m)
  obtain ka va where a: "a = (ka, va)" by (cases a)
  show ?case
  proof (cases "ka = k")
    case True
    then show ?thesis by (simp add: a)
  next
    case False
    with Cons.prems a have "k \<in> fst ` set m" by auto
    with Cons.IH False show ?thesis by (simp add: a)
  qed
qed

lemma map_of_append_absent:
  assumes "k \<notin> fst ` set m"
  shows "map_of (m @ [(k, v)]) k' = (if k' = k then Some v else map_of m k')"
proof -
  have none: "map_of m k = None" using assms by (simp add: map_of_eq_None_iff)
  show ?thesis
  proof (cases "map_of m k'")
    case None
    then show ?thesis by (simp add: map_add_def)
  next
    case (Some x)
    with none have "k' \<noteq> k" by auto
    with Some show ?thesis by (simp add: map_add_def)
  qed
qed

lemma Map_get_Map_set: "Map_get k' (Map_set k v m) = (if k' = k then Some v else Map_get k' m)"
proof (cases "k \<in> fst ` set m")
  case True
  then show ?thesis
    unfolding Map_get_def Map_set_def Map_has_def
    by (simp add: map_of_replace_other map_of_replace_same)
next
  case False
  then show ?thesis
    unfolding Map_get_def Map_set_def Map_has_def
    using map_of_append_absent [OF False, of v k'] by (simp del: map_of_append)
qed

lemma entity_wf_animation: "entity_wf p \<Longrightarrow> animation p = None"
proof -
  assume wf: "entity_wf p"
  have "Map_get ''Animation'' (components p) = None"
  proof (cases "Map_get ''Animation'' (components p)")
    case None then show ?thesis .
  next
    case (Some c)
    then have "(''Animation'', c) \<in> set (components p)"
      by (simp add: Map_get_def map_of_SomeD)
    with wf have "component_type c = ''Animation''"
      by (auto simp: entity_wf_def list_all_iff)
    then show ?thesis by (cases c) simp_all
  qed
  then show ?thesis by (simp add: animation_def)
qed

text \<open>What \<open>setPosition\<close> and \<open>with_animation\<close> change and what they keep.\<close>

lemma animation_setPosition [simp]: "animation (setPosition x y z p) = animation p"
  by (simp add: setPosition_def animation_def Map_get_Map_set split: option.split)

lemma sprite_setPosition [simp]: "sprite (setPosition x y z p) = sprite p"
  by (simp add: setPosition_def sprite_def Map_get_Map_set split: option.split)

lemma characterClass_setPosition [simp]: "characterClass (setPosition x y z p) = characterClass p"
  by (simp add: setPosition_def split: option.split)

lemma position_setPosition:
  "position (setPosition x y z p) = map_option (PositionComponent_setPosition x y z) (position p)"
  by (auto simp add: setPosition_def position_def Map_get_Map_set split: option.split Component.split)

lemma position_with_animation [simp]: "position (with_animation f p) = position p"
  by (simp add: with_animation_def position_def Map_get_Map_set split: option.split)

lemma animation_with_animation [simp]: "animation (with_animation f p) = map_option f (animation p)"
  by (simp add: with_animation_def animation_def Map_get_Map_set split: option.split Component.split)

lemma characterClass_with_animation [simp]: "characterClass (with_animation f p) = characterClass p"
  by (simp add: with_animation_def split: option.split)

lemma no_sprite_set_setPosition [simp]: "no_sprite_set sm (setPosition x y z p) = no_sprite_set sm p"
  by (simp add: no_sprite_set_def)

lemma no_sprite_set_with_animation [simp]: "no_sprite_set sm (with_animation f p) = no_sprite_set sm p"
  by (simp add: no_sprite_set_def)

lemma getXYZ_with_animation [simp]:
  "getX (with_animation f p) = getX p" "getY (with_animation f p) = getY p"
  "getZ (with_animation f p) = getZ p"
  by (simp_all add: getX_def getY_def getZ_def)

lemma getXYZ_setPosition:
  "getX (setPosition x y z p) = (if position p = None then 0 else x)"
  "getY (setPosition x y z p) = (if position p = None then 0 else y)"
  "getZ (setPosition x y z p) = (if position p = None then 0 else z)"
  by (auto simp add: getX_def getY_def getZ_def position_setPosition
      PositionComponent_setPosition_def)

text \<open>Without an animation component, and without a sprite set, the texture update
  returns.\<close>

lemma updateSpriteTexture_safe:
  "animation p = None \<or> no_sprite_set sm p \<Longrightarrow> updateSpriteTexture sm p = Inr p"
  by (auto simp add: updateSpriteTexture_def no_sprite_set_def getCurrentFrameTexture_def
      getAnimationFrames_def split: option.split)

lemma setDirection_safe:
  assumes "animation p = None \<or> no_sprite_set sm p"
  shows "setDirection sm d p
           = Inr (with_animation (\<lambda>a. setAnimation (st_type (AnimationComponent.currentState a)) d a) p)"
proof (cases "animation p")
  case None
  then show ?thesis by (simp add: setDirection_def with_animation_def)
next
  case (Some a)
  let ?p1 = "p\<lparr>components := Map_set ''Animation''
      (AnimationC (setAnimation (st_type (AnimationComponent.currentState a)) d a)) (components p)\<rparr>"
  from Some assms have "no_sprite_set sm p" by simp
  then have "no_sprite_set sm ?p1" by (simp add: no_sprite_set_def)
  then have "updateSpriteTexture sm ?p1 = Inr ?p1" by (simp add: updateSpriteTexture_safe)
  then show ?thesis using Some by (simp add: setDirection_def with_animation_def Let_def)
qed

lemma setAnimationType_safe:
  assumes "animation p = None \<or> no_sprite_set sm p"
  shows "setAnimationType sm t p
           = Inr (with_animation (\<lambda>a. setAnimation t (st_direction (AnimationComponent.currentState a)) a) p)"
proof (cases "animation p")
  case None
  then show ?thesis by (simp add: setAnimationType_def with_animation_def)
next
  case (Some a)
  let ?p1 = "p\<lparr>components := Map_set ''Animation''
      (AnimationC (setAnimation t (st_direction (AnimationComponent.currentState a)) a)) (components p)\<rparr>"
  from Some assms have "no_sprite_set sm p" by simp
  then have "no_sprite_set sm ?p1" by (simp add: no_sprite_set_def)
  then have "updateSpriteTexture sm ?p1 = Inr ?p1" by (simp add: updateSpriteTexture_safe)
  then show ?thesis using Some by (simp add: setAnimationType_def with_animation_def Let_def)
qed

lemma isValidPosition_iff:
  "isValidPosition m p x y z \<longleftrightarrow>
     0 \<le> x \<and> x < width m \<and> 0 \<le> y \<and> y < height m \<and> isWalkable m x y
     \<and> \<bar>getElevation m x y - getElevation m (getX p) (getY p)\<bar> \<le> 1"
  by (auto simp add: isValidPosition_def Let_def)

lemma execute_safe:
  assumes "animation p = None \<or> no_sprite_set sm p"
  shows "execute sm m c p =
     (if isValidPosition m p (getX p + deltaX c) (getY p + deltaY c) (getZ p + deltaZ c)
      then Inr (True, c\<lparr>previousPosition := Some (getX p, getY p, getZ p)\<rparr>,
                with_animation (\<lambda>a. setAnimation walk (st_direction (AnimationComponent.currentState a)) a)
                  (with_animation (\<lambda>a. setAnimation (st_type (AnimationComponent.currentState a)) (direction c) a)
                     (setPosition (getX p + deltaX c) (getY p + deltaY c) (getZ p + deltaZ c) p)))
      else Inr (False, c, p))"
proof -
  let ?p1 = "setPosition (getX p + deltaX c) (getY p + deltaY c) (getZ p + deltaZ c) p"
  let ?p2 = "with_animation (\<lambda>a. setAnimation (st_type (AnimationComponent.currentState a)) (direction c) a) ?p1"
  have s1: "animation ?p1 = None \<or> no_sprite_set sm ?p1" using assms by simp
  have s2: "animation ?p2 = None \<or> no_sprite_set sm ?p2" using assms by auto
  show ?thesis
    by (simp add: execute_def canExecute_def Let_def setDirection_safe [OF s1]
        setAnimationType_safe [OF s2])
qed

lemma setAnimation_idle:
  "idle_configured a \<Longrightarrow>
   st_type (AnimationComponent.currentState
     (setAnimation idle (st_direction (AnimationComponent.currentState a)) a)) = idle"
  by (auto simp add: idle_configured_def setAnimation_def split: option.splits)

lemma undo_safe:
  assumes "animation p = None \<or> no_sprite_set sm p" and "previousPosition c = Some (x, y, z)"
  shows "undo sm c p = Inr (True, c,
           with_animation (\<lambda>a. setAnimation idle (st_direction (AnimationComponent.currentState a)) a)
             (setPosition x y z p))"
proof -
  have "animation (setPosition x y z p) = None \<or> no_sprite_set sm (setPosition x y z p)"
    using assms(1) by simp
  from setAnimationType_safe [OF this] show ?thesis
    by (simp add: undo_def assms(2))
qed

lemma getXYZ_no_position:
  "position p = None \<Longrightarrow> getX p = 0" "position p = None \<Longrightarrow> getY p = 0"
  "position p = None \<Longrightarrow> getZ p = 0"
  by (simp_all add: getX_def getY_def getZ_def)

lemma getCurrentAnimationType_idle: "getCurrentAnimationType p = idle"
  by (simp add: getCurrentAnimationType_def AnimationComponent_animationType_def
      split: option.split)

lemma execute_result:
  assumes "animation p = None \<or> no_sprite_set sm p" and "execute sm m c p = Inr (True, c', p')"
  shows "previousPosition c' = Some (getX p, getY p, getZ p)"
    and "(position p' = None) = (position p = None)"
    and "animation p' = None \<or> no_sprite_set sm p'"
    and "c' = c\<lparr>previousPosition := Some (getX p, getY p, getZ p)\<rparr>"
    and "position p' = map_option (PositionComponent_setPosition (getX p + deltaX c)
                         (getY p + deltaY c) (getZ p + deltaZ c)) (position p)"
    and "position p \<noteq> None \<Longrightarrow>
           getX p' = getX p + deltaX c \<and> getY p' = getY p + deltaY c
           \<and> getZ p' = getZ p + deltaZ c"
proof -
  let ?fD = "\<lambda>a. setAnimation (st_type (AnimationComponent.currentState a)) (direction c) a"
  let ?fW = "\<lambda>a. setAnimation walk (st_direction (AnimationComponent.currentState a)) a"
  let ?q = "setPosition (getX p + deltaX c) (getY p + deltaY c) (getZ p + deltaZ c) p"
  note ex = execute_safe [OF assms(1), of m c]
  have valid: "isValidPosition m p (getX p + deltaX c) (getY p + deltaY c) (getZ p + deltaZ c)"
  proof (rule ccontr)
    assume "\<not> ?thesis"
    with ex have "execute sm m c p = Inr (False, c, p)" by (simp only: if_False)
    with assms(2) show False by simp
  qed
  with ex have "execute sm m c p
      = Inr (True, c\<lparr>previousPosition := Some (getX p, getY p, getZ p)\<rparr>,
             with_animation ?fW (with_animation ?fD ?q))"
    by (simp only: if_True)
  with assms(2) have c': "c' = c\<lparr>previousPosition := Some (getX p, getY p, getZ p)\<rparr>"
    and p': "p' = with_animation ?fW (with_animation ?fD ?q)"
    by simp_all
  show "previousPosition c' = Some (getX p, getY p, getZ p)"
    unfolding c' by simp
  show "(position p' = None) = (position p = None)"
    unfolding p' by (simp only: position_with_animation position_setPosition option.map_disc_iff)
  show "animation p' = None \<or> no_sprite_set sm p'"
    unfolding p'
    using assms(1)
    by (simp only: animation_with_animation animation_setPosition no_sprite_set_with_animation
        no_sprite_set_setPosition option.map_disc_iff)
  show "c' = c\<lparr>previousPosition := Some (getX p, getY p, getZ p)\<rparr>"
    by (rule c')
  show "position p' = map_option (PositionComponent_setPosition (getX p + deltaX c)
                         (getY p + deltaY c) (getZ p + deltaZ c)) (position p)"
    unfolding p' by (simp only: position_with_animation position_setPosition)
  show "getX p' = getX p + deltaX c \<and> getY p' = getY p + deltaY c
           \<and> getZ p' = getZ p + deltaZ c" if "position p \<noteq> None"
    unfolding p' using that by (simp only: getXYZ_with_animation getXYZ_setPosition if_False simp_thms)
qed

text \<open>
  C5. For a player whose components were registered by \<^verbatim>\<open>addComponent\<close>, or whose character
  class has no sprite set in the sprite manager, and any deltas of the command, \<^verbatim>\<open>execute\<close>
  returns \<^verbatim>\<open>true\<close> exactly when the target cell \<open>(x, y) = (getX + deltaX, getY + deltaY)\<close> has
  \<open>0 \<le> x < width\<close>, \<open>0 \<le> y < height\<close>, a walkable tile, and an elevation that differs from
  the elevation of the player's cell by at most 1. When it returns \<^verbatim>\<open>true\<close> the command has
  stored the coordinates the player had, the position component holds the target
  coordinates, and a player that has a position component is at the target. Otherwise it
  returns \<^verbatim>\<open>false\<close> and leaves the player (and the command) as they were.
\<close>

theorem execute_succeeds_iff_valid:
  assumes "entity_wf p \<or> no_sprite_set sm p"
  shows "((\<exists>c' p'. execute sm m c p = Inr (True, c', p'))
            \<longleftrightarrow> (0 \<le> getX p + deltaX c \<and> getX p + deltaX c < width m
                \<and> 0 \<le> getY p + deltaY c \<and> getY p + deltaY c < height m
                \<and> isWalkable m (getX p + deltaX c) (getY p + deltaY c)
                \<and> \<bar>getElevation m (getX p + deltaX c) (getY p + deltaY c)
                     - getElevation m (getX p) (getY p)\<bar> \<le> 1))
         \<and> (\<forall>c' p'. execute sm m c p = Inr (True, c', p') \<longrightarrow>
                c' = c\<lparr>previousPosition := Some (getX p, getY p, getZ p)\<rparr>
              \<and> position p' = map_option (PositionComponent_setPosition (getX p + deltaX c)
                                   (getY p + deltaY c) (getZ p + deltaZ c)) (position p)
              \<and> (position p \<noteq> None \<longrightarrow>
                    getX p' = getX p + deltaX c \<and> getY p' = getY p + deltaY c
                    \<and> getZ p' = getZ p + deltaZ c))
         \<and> ((\<nexists>c' p'. execute sm m c p = Inr (True, c', p'))
              \<longrightarrow> execute sm m c p = Inr (False, c, p))"
proof -
  from assms have safe: "animation p = None \<or> no_sprite_set sm p"
    by (auto dest: entity_wf_animation)
  note ex = execute_safe [OF safe, of m c]
  have moved: "c' = c\<lparr>previousPosition := Some (getX p, getY p, getZ p)\<rparr>
              \<and> position p' = map_option (PositionComponent_setPosition (getX p + deltaX c)
                                   (getY p + deltaY c) (getZ p + deltaZ c)) (position p)
              \<and> (position p \<noteq> None \<longrightarrow>
                    getX p' = getX p + deltaX c \<and> getY p' = getY p + deltaY c
                    \<and> getZ p' = getZ p + deltaZ c)"
    if "execute sm m c p = Inr (True, c', p')" for c' p'
    using execute_result(4) [OF safe that] execute_result(5) [OF safe that]
      execute_result(6) [OF safe that]
    by blast
  have iff_rest: "((\<exists>c' p'. execute sm m c p = Inr (True, c', p'))
            \<longleftrightarrow> (0 \<le> getX p + deltaX c \<and> getX p + deltaX c < width m
                \<and> 0 \<le> getY p + deltaY c \<and> getY p + deltaY c < height m
                \<and> isWalkable m (getX p + deltaX c) (getY p + deltaY c)
                \<and> \<bar>getElevation m (getX p + deltaX c) (getY p + deltaY c)
                     - getElevation m (getX p) (getY p)\<bar> \<le> 1))
         \<and> ((\<nexists>c' p'. execute sm m c p = Inr (True, c', p'))
              \<longrightarrow> execute sm m c p = Inr (False, c, p))"
  proof (cases "isValidPosition m p (getX p + deltaX c) (getY p + deltaY c) (getZ p + deltaZ c)")
    case True
    with ex have "\<exists>c' p'. execute sm m c p = Inr (True, c', p')"
      by (simp only: if_True) blast
    with True show ?thesis
      by (simp only: isValidPosition_iff) blast
  next
    case False
    with ex have e: "execute sm m c p = Inr (False, c, p)"
      by (simp only: if_False)
    then have "\<nexists>c' p'. execute sm m c p = Inr (True, c', p')"
      by simp
    with False e show ?thesis
      by (simp only: isValidPosition_iff) blast
  qed
  from iff_rest moved show ?thesis by blast
qed

lemma entity_wf_demo_player: "entity_wf demo_player"
  by code_simp

theorem execute_succeeds_iff_valid_witness:
  "entity_wf demo_player
   \<and> getX demo_player = 5 \<and> getY demo_player = 5 \<and> getZ demo_player = 0
   \<and> (\<exists>p'. execute [] demo_map MoveEastCommand demo_player
               = Inr (True, MoveEastCommand\<lparr>previousPosition := Some (5, 5, 0)\<rparr>, p')
           \<and> getX p' = 6 \<and> getY p' = 5 \<and> getZ p' = 0)
   \<and> execute [] demo_map MoveWestCommand demo_player = Inr (False, MoveWestCommand, demo_player)"
proof -
  have east: "0 \<le> getX demo_player + deltaX MoveEastCommand
      \<and> getX demo_player + deltaX MoveEastCommand < width demo_map
      \<and> 0 \<le> getY demo_player + deltaY MoveEastCommand
      \<and> getY demo_player + deltaY MoveEastCommand < height demo_map
      \<and> isWalkable demo_map (getX demo_player + deltaX MoveEastCommand)
           (getY demo_player + deltaY MoveEastCommand)
      \<and> \<bar>getElevation demo_map (getX demo_player + deltaX MoveEastCommand)
             (getY demo_player + deltaY MoveEastCommand)
           - getElevation demo_map (getX demo_player) (getY demo_player)\<bar> \<le> 1"
    by code_simp
  have west: "\<not> isWalkable demo_map (getX demo_player + deltaX MoveWestCommand)
           (getY demo_player + deltaY MoveWestCommand)"
    by code_simp
  have pos: "getX demo_player = 5" "getY demo_player = 5" "getZ demo_player = 0"
    "position demo_player \<noteq> None"
    by code_simp+
  have d: "deltaX MoveEastCommand = 1" "deltaY MoveEastCommand = 0" "deltaZ MoveEastCommand = 0"
    by (simp_all add: MoveEastCommand_def)
  have wf: "entity_wf demo_player \<or> no_sprite_set [] demo_player"
    using entity_wf_demo_player by simp
  note e = execute_succeeds_iff_valid [OF wf, of demo_map MoveEastCommand]
  note w = execute_succeeds_iff_valid [OF wf, of demo_map MoveWestCommand]
  from e east obtain c' p' where
    x: "execute [] demo_map MoveEastCommand demo_player = Inr (True, c', p')"
    by blast
  with e pos(4) have c': "c' = MoveEastCommand\<lparr>previousPosition :=
        Some (getX demo_player, getY demo_player, getZ demo_player)\<rparr>"
    and p': "getX p' = getX demo_player + deltaX MoveEastCommand"
      "getY p' = getY demo_player + deltaY MoveEastCommand"
      "getZ p' = getZ demo_player + deltaZ MoveEastCommand"
    by blast+
  from x c' p' pos d have east_done:
    "\<exists>p'. execute [] demo_map MoveEastCommand demo_player
               = Inr (True, MoveEastCommand\<lparr>previousPosition := Some (5, 5, 0)\<rparr>, p')
           \<and> getX p' = 6 \<and> getY p' = 5 \<and> getZ p' = 0"
    by auto
  from w west have west_done:
    "execute [] demo_map MoveWestCommand demo_player = Inr (False, MoveWestCommand, demo_player)"
    by blast
  from entity_wf_demo_player pos east_done west_done show ?thesis by blast
qed

text \<open>
  C6. For such a player, after an \<^verbatim>\<open>execute\<close> that returned \<^verbatim>\<open>true\<close>, \<^verbatim>\<open>undo\<close> returns
  \<^verbatim>\<open>true\<close>, the player's coordinates are those from before the \<^verbatim>\<open>execute\<close>, and the
  player's animation type, as \<^verbatim>\<open>getCurrentAnimationType\<close> reports it, is \<^verbatim>\<open>idle\<close>. If the
  player has an animation component that has an idle animation for its direction, the state
  of that component is idle as well.
\<close>

theorem undo_restores_position:
  assumes "entity_wf p \<or> no_sprite_set sm p" and "execute sm m c p = Inr (True, c', p')"
  shows "\<exists>p''. undo sm c' p' = Inr (True, c', p'')
           \<and> getX p'' = getX p \<and> getY p'' = getY p \<and> getZ p'' = getZ p
           \<and> getCurrentAnimationType p'' = idle
           \<and> (\<forall>a'. animation p' = Some a' \<longrightarrow> idle_configured a' \<longrightarrow>
                 (\<exists>a''. animation p'' = Some a''
                    \<and> st_type (AnimationComponent.currentState a'') = idle))"
proof -
  let ?fI = "\<lambda>a. setAnimation idle (st_direction (AnimationComponent.currentState a)) a"
  from assms(1) have safe: "animation p = None \<or> no_sprite_set sm p"
    by (auto dest: entity_wf_animation)
  note r = execute_result [OF safe assms(2)]
  let ?p'' = "with_animation ?fI (setPosition (getX p) (getY p) (getZ p) p')"
  have u: "undo sm c' p' = Inr (True, c', ?p'')"
    by (rule undo_safe [OF r(3) r(1)])
  have x: "getX ?p'' = getX p"
    by (cases "position p") (simp_all add: getXYZ_setPosition r(2) getXYZ_no_position)
  have y: "getY ?p'' = getY p"
    by (cases "position p") (simp_all add: getXYZ_setPosition r(2) getXYZ_no_position)
  have z: "getZ ?p'' = getZ p"
    by (cases "position p") (simp_all add: getXYZ_setPosition r(2) getXYZ_no_position)
  have st: "\<exists>a''. animation ?p'' = Some a'' \<and> st_type (AnimationComponent.currentState a'') = idle"
    if "animation p' = Some a'" and "idle_configured a'" for a'
    using that by (simp add: setAnimation_idle)
  from u x y z st getCurrentAnimationType_idle [of ?p''] show ?thesis by blast
qed

theorem undo_restores_position_witness:
  "entity_wf demo_player
   \<and> execute [] demo_map MoveEastCommand demo_player
       = Inr (True, MoveEastCommand_done, moved demo_player)
   \<and> (\<exists>p''. undo [] MoveEastCommand_done (moved demo_player)
             = Inr (True, MoveEastCommand_done, p'')
           \<and> getX p'' = 5 \<and> getY p'' = 5 \<and> getZ p'' = 0
           \<and> getCurrentAnimationType p'' = idle)
   \<and> no_sprite_set [] animated_player
   \<and> execute [] demo_map MoveEastCommand animated_player
       = Inr (True, MoveEastCommand_done, moved animated_player)
   \<and> (\<exists>a'. animation (moved animated_player) = Some a' \<and> idle_configured a'
          \<and> st_type (AnimationComponent.currentState a') = walk)
   \<and> (\<exists>p''. undo [] MoveEastCommand_done (moved animated_player)
             = Inr (True, MoveEastCommand_done, p'')
           \<and> getX p'' = 5 \<and> getY p'' = 5 \<and> getZ p'' = 0
           \<and> (\<exists>a''. animation p'' = Some a''
                 \<and> st_type (AnimationComponent.currentState a'') = idle))"
proof -
  have wf: "entity_wf demo_player \<or> no_sprite_set [] demo_player"
    using entity_wf_demo_player by simp
  have ns: "no_sprite_set [] animated_player" by code_simp
  then have ns': "entity_wf animated_player \<or> no_sprite_set [] animated_player" by simp
  have ex1: "execute [] demo_map MoveEastCommand demo_player
       = Inr (True, MoveEastCommand_done, moved demo_player)"
    by code_simp
  have ex2: "execute [] demo_map MoveEastCommand animated_player
       = Inr (True, MoveEastCommand_done, moved animated_player)"
    by code_simp
  have pos: "getX demo_player = 5" "getY demo_player = 5" "getZ demo_player = 0"
    "getX animated_player = 5" "getY animated_player = 5" "getZ animated_player = 0"
    by code_simp+
  obtain a' where a': "animation (moved animated_player) = Some a'"
    by (cases "animation (moved animated_player)") (code_simp, blast)
  have "case animation (moved animated_player) of
          Some a \<Rightarrow> idle_configured a \<and> st_type (AnimationComponent.currentState a) = walk
        | None \<Rightarrow> False"
    by code_simp
  with a' have ic: "idle_configured a'" "st_type (AnimationComponent.currentState a') = walk"
    by simp_all
  from undo_restores_position [OF wf ex1] pos
  have r1: "\<exists>p''. undo [] MoveEastCommand_done (moved demo_player)
             = Inr (True, MoveEastCommand_done, p'')
           \<and> getX p'' = 5 \<and> getY p'' = 5 \<and> getZ p'' = 0
           \<and> getCurrentAnimationType p'' = idle"
    by auto
  from undo_restores_position [OF ns' ex2] pos a' ic
  have r2: "\<exists>p''. undo [] MoveEastCommand_done (moved animated_player)
             = Inr (True, MoveEastCommand_done, p'')
           \<and> getX p'' = 5 \<and> getY p'' = 5 \<and> getZ p'' = 0
           \<and> (\<exists>a''. animation p'' = Some a''
                 \<and> st_type (AnimationComponent.currentState a'') = idle)"
    by auto
  from entity_wf_demo_player ex1 r1 ns ex2 a' ic r2 show ?thesis by blast
qed

section \<open>Properties of the memento subsystem\<close>

subsection \<open>The save set\<close>

text \<open>None of the members of a built-in \<^verbatim>\<open>Map\<close> that the caretaker uses is a property of
  its save set.\<close>

lemma getMember_absent:
  "getMember obj ''set'' = Undefined" "getMember obj ''size'' = Undefined"
  "getMember obj ''entries'' = Undefined" "getMember obj ''delete'' = Undefined"
  "getMember obj ''get'' = Undefined" "getMember obj ''has'' = Undefined"
  "getMember obj ''values'' = Undefined" "getMember obj ''clear'' = Undefined"
  by (simp_all add: getMember_def MapEntity_methods_def objectPrototypeKeys_def)

lemma callMethod_absent:
  "callMethod obj ''set'' = Inl TypeError" "callMethod obj ''entries'' = Inl TypeError"
  by (simp_all add: callMethod_def getMember_absent)

lemma cleanupOldSaves_raises: "cleanupOldSaves c = (Inl TypeError, c)"
  by (simp add: cleanupOldSaves_def getMember_absent callMethod_absent)

lemma saveGame_raises:
  "saveGame env saveName player m c
     = (case createMemento env saveName player m (originator c) of
          Inl e \<Rightarrow> (Inl e, c)
        | Inr memento \<Rightarrow> (Inl TypeError, c))"
  by (simp add: saveGame_def callMethod_absent split: sum.split)

lemma map_of_Map_set: "map_of (Map_set k v m) k' = (if k' = k then Some v else map_of m k')"
  using Map_get_Map_set [of k' k v m] by (simp add: Map_get_def)

lemma createMemento_holds_state:
  assumes "holds_state orig"
  shows "\<exists>memento. createMemento env saveName player m orig = Inr memento
           \<and> memento_id memento = JStr (generateSaveId env)
           \<and> timestamp memento = constructor_now env
           \<and> Map_get ''saveName'' (metadata memento) = Some (JStr saveName)"
proof -
  from assms obtain st playTime where st: "currentGameState orig = Some st"
    and gp: "getProperty (case Map_get ''statistics'' st of Some v \<Rightarrow> v | None \<Rightarrow> JUndefined)
               ''totalPlayTime'' = Inr playTime"
    by (auto simp add: holds_state_def has_statistics_def split: option.splits sum.splits)
  have cm: "createMemento env saveName player m orig
      = (let md =
           [(''id'', JStr (generateSaveId env)),
            (''timestamp'', JNum (of_int (metadata_now env))),
            (''version'', JStr (originator_version orig)),
            (''saveName'', JStr saveName),
            (''playerName'', JStr (player_name player)),
            (''characterClass'', JStr (class_text (characterClass player))),
            (''playTime'', playTime),
            (''level'', JNum 1),
            (''location'', JStr (map_name m @ '' ('' @ show_int (getX player) @ '', ''
                                 @ show_int (getY player) @ '')'')),
            (''description'', JStr (''Level '' @ show_int 1 @ '' ''
                                 @ class_text (characterClass player) @ '' - '' @ saveName))]
         in Inr (new_GameMemento (constructor_now env) (JStr (generateSaveId env))
                   (JObj st) (JObj md) (JStr (originator_version orig))))"
    unfolding createMemento_def st by (simp only: gp option.case sum.case)
  show ?thesis
    unfolding cm
    by (simp add: Let_def Map_get_def new_GameMemento_def map_of_Map_set)
qed


lemma saveGame_holds_state:
  "holds_state (originator c) \<Longrightarrow> saveGame env saveName player m c = (Inl TypeError, c)"
  using createMemento_holds_state [of "originator c" env saveName player m]
  by (auto simp add: saveGame_raises)

lemma holds_state_demo_caretaker: "holds_state (originator demo_caretaker)"
  by code_simp

text \<open>
  C2. The save set cannot take a memento. For a caretaker whose originator holds a state,
  \<^verbatim>\<open>saveGame\<close> creates the memento and then raises a \<^verbatim>\<open>TypeError\<close> at \<^verbatim>\<open>this.mementos.set\<close>,
  leaving the caretaker as it was, so every run of saves ends at its first call;
  \<^verbatim>\<open>getSaveCount\<close> is \<^verbatim>\<open>undefined\<close> instead of a number, and the pruning that \<^verbatim>\<open>setMaxSaves\<close>
  starts raises a \<^verbatim>\<open>TypeError\<close> as well.
\<close>

theorem saveGame_raises_TypeError:
  assumes "holds_state (originator c)"
  shows "(\<exists>memento. createMemento env saveName player m (originator c) = Inr memento)
         \<and> saveGame env saveName player m c = (Inl TypeError, c)
         \<and> save_all ((env, saveName, player, m) # calls) c = Inl TypeError
         \<and> getSaveCount c = Undefined
         \<and> setMaxSaves n c = (Inl TypeError, c\<lparr>maxSaves := max 1 n\<rparr>)"
proof -
  from createMemento_holds_state [OF assms, of env saveName player m]
  have cm: "\<exists>memento. createMemento env saveName player m (originator c) = Inr memento"
    by blast
  have sg: "saveGame env saveName player m c = (Inl TypeError, c)"
    by (rule saveGame_holds_state [OF assms])
  have sa: "save_all ((env, saveName, player, m) # calls) c = Inl TypeError"
    by (simp add: sg)
  have gc: "getSaveCount c = Undefined"
    by (simp add: getSaveCount_def getMember_absent)
  have sm: "setMaxSaves n c = (Inl TypeError, c\<lparr>maxSaves := max 1 n\<rparr>)"
    by (simp add: setMaxSaves_def cleanupOldSaves_raises)
  from cm sg sa gc sm show ?thesis by blast
qed

text \<open>A new caretaker and three saves with increasing timestamps: the first one raises.\<close>

theorem saveGame_raises_TypeError_witness:
  "holds_state (originator demo_caretaker)
   \<and> maxSaves demo_caretaker = 10
   \<and> saveGame (demo_env 1000 ''a'') ''S1'' demo_player demo_map demo_caretaker
       = (Inl TypeError, demo_caretaker)
   \<and> save_all demo_calls demo_caretaker = Inl TypeError
   \<and> getSaveCount demo_caretaker = Undefined
   \<and> setMaxSaves 2 demo_caretaker = (Inl TypeError, demo_caretaker\<lparr>maxSaves := 2\<rparr>)"
proof -
  have ms: "maxSaves demo_caretaker = 10"
    by (simp add: demo_caretaker_def new_GameCaretaker_def)
  have calls: "demo_calls = (demo_env 1000 ''a'', ''S1'', demo_player, demo_map)
                 # [(demo_env 2000 ''b'', ''S2'', demo_player, demo_map),
                    (demo_env 3000 ''c'', ''S3'', demo_player, demo_map)]"
    by (simp add: demo_calls_def)
  from saveGame_raises_TypeError
    [OF holds_state_demo_caretaker, where env = "demo_env 1000 ''a''" and saveName = "''S1''"
       and player = demo_player and m = demo_map and n = 2
       and calls = "[(demo_env 2000 ''b'', ''S2'', demo_player, demo_map),
                     (demo_env 3000 ''c'', ''S3'', demo_player, demo_map)]"]
  show ?thesis
    using holds_state_demo_caretaker ms calls by simp
qed

text \<open>
  C4. For a caretaker whose originator holds a state, \<^verbatim>\<open>autoSave\<close> returns \<^verbatim>\<open>null\<close> and changes
  nothing while less than \<^verbatim>\<open>autoSaveInterval\<close> milliseconds have passed since the last
  auto-save. Otherwise it writes the time of the call to \<^verbatim>\<open>lastAutoSave\<close> and then raises
  the \<^verbatim>\<open>TypeError\<close> of \<^verbatim>\<open>saveGame\<close>: no save is made, and the interval starts anew.
\<close>

theorem autoSave_due_raises:
  assumes "holds_state (originator c)"
  shows "autoSave now env player m c
           = (if now - lastAutoSave c < autoSaveInterval c then (Inr None, c)
              else (Inl TypeError, c\<lparr>lastAutoSave := now\<rparr>))"
proof -
  from assms have "holds_state (originator (c\<lparr>lastAutoSave := now\<rparr>))"
    by simp
  from saveGame_holds_state [OF this]
  show ?thesis
    by (simp add: autoSave_def)
qed

text \<open>The first auto-save of a new caretaker raises; one a millisecond later returns
  \<^verbatim>\<open>null\<close>; one after the interval raises again.\<close>

theorem autoSave_due_raises_witness:
  "holds_state (originator demo_caretaker)
   \<and> lastAutoSave demo_caretaker = 0 \<and> autoSaveInterval demo_caretaker = 300000
   \<and> autoSave 1000000 (demo_env 1000000 ''a'') demo_player demo_map demo_caretaker
       = (Inl TypeError, demo_caretaker\<lparr>lastAutoSave := 1000000\<rparr>)
   \<and> autoSave 1000001 (demo_env 1000001 ''b'') demo_player demo_map
         (demo_caretaker\<lparr>lastAutoSave := 1000000\<rparr>)
       = (Inr None, demo_caretaker\<lparr>lastAutoSave := 1000000\<rparr>)
   \<and> autoSave 1300000 (demo_env 1300000 ''c'') demo_player demo_map
         (demo_caretaker\<lparr>lastAutoSave := 1000000\<rparr>)
       = (Inl TypeError, demo_caretaker\<lparr>lastAutoSave := 1300000\<rparr>)"
proof -
  have f: "lastAutoSave demo_caretaker = 0" "autoSaveInterval demo_caretaker = 300000"
    by (simp_all add: demo_caretaker_def new_GameCaretaker_def)
  have h: "holds_state (originator (demo_caretaker\<lparr>lastAutoSave := 1000000\<rparr>))"
    using holds_state_demo_caretaker by simp
  from autoSave_due_raises [OF holds_state_demo_caretaker, of 1000000 "demo_env 1000000 ''a''"
      demo_player demo_map]
    autoSave_due_raises [OF h, of 1000001 "demo_env 1000001 ''b''" demo_player demo_map]
    autoSave_due_raises [OF h, of 1300000 "demo_env 1300000 ''c''" demo_player demo_map]
  show ?thesis
    using holds_state_demo_caretaker f by simp
qed

subsection \<open>Import and serialisation\<close>

lemma import_entry_eq:
  "import_entry parse toString clock (c, warnings) (i, v)
     = (c, case fromJSON parse (clock i) (case v of JStr s \<Rightarrow> s | v' \<Rightarrow> toString v') of
             Inl e \<Rightarrow> warnings @ [(''Failed to import individual save:'', e)]
           | Inr memento \<Rightarrow>
               if isValid memento
               then warnings @ [(''Failed to import individual save:'', TypeError)]
               else warnings)"
  by (simp add: import_entry_def callMethod_absent split: sum.split)

lemma fst_foldl_import_entry:
  "fst (foldl (import_entry parse toString clock) (c, warnings) entries) = c"
proof (induction entries arbitrary: warnings)
  case Nil
  show ?case by simp
next
  case (Cons entry entries)
  obtain i v where entry: "entry = (i, v)" by (cases entry)
  show ?case
    unfolding entry foldl_Cons import_entry_eq by (rule Cons.IH)
qed

text \<open>
  C3. \<^verbatim>\<open>importSaves\<close> imports nothing. An entry whose \<^verbatim>\<open>fromJSON\<close> raises is skipped with a
  warning and one whose memento is not valid is skipped without; an entry with a valid
  memento raises a \<^verbatim>\<open>TypeError\<close> at \<^verbatim>\<open>this.mementos.set\<close> and is skipped with a warning too.
  Whatever the text, the call ends in the outer \<^verbatim>\<open>catch\<close>, which warns and replaces the save
  set by a \<^verbatim>\<open>new Map()\<close>: for a text that does not parse, for a parsed value that is no
  array, and for an array, after whose entries \<^verbatim>\<open>cleanupOldSaves\<close> raises.
\<close>

theorem importSaves_imports_nothing:
  "import_entry parse toString clock (c, warnings) (i, v)
     = (c, case fromJSON parse (clock i) (case v of JStr s \<Rightarrow> s | v' \<Rightarrow> toString v') of
             Inl e \<Rightarrow> warnings @ [(''Failed to import individual save:'', e)]
           | Inr memento \<Rightarrow>
               if isValid memento
               then warnings @ [(''Failed to import individual save:'', TypeError)]
               else warnings)
   \<and> fst (importSaves parse toString clock json c) = c\<lparr>mementos := New_Map\<rparr>
   \<and> (\<exists>ws e. snd (importSaves parse toString clock json c)
                = ws @ [(''Failed to import saves, resetting mementos:'', e)])
   \<and> getSaveCount (fst (importSaves parse toString clock json c)) = Undefined"
proof -
  have reset: "fst (importSaves parse toString clock json c) = c\<lparr>mementos := New_Map\<rparr>
      \<and> (\<exists>ws e. snd (importSaves parse toString clock json c)
                = ws @ [(''Failed to import saves, resetting mementos:'', e)])"
  proof (cases "parse json")
    case None
    then show ?thesis by (simp add: importSaves_def)
  next
    case (Some data)
    show ?thesis
    proof (cases "\<exists>saves. data = JArr saves")
      case False
      with Some show ?thesis
        by (cases data) (simp_all add: importSaves_def)
    next
      case True
      then obtain saves where data: "data = JArr saves" by blast
      obtain c1 ws where f: "foldl (import_entry parse toString clock) (c, []) (enumerate 0 saves)
          = (c1, ws)"
        by (cases "foldl (import_entry parse toString clock) (c, []) (enumerate 0 saves)")
      from fst_foldl_import_entry [of parse toString clock c "[]" "enumerate 0 saves"] f
      have c1: "c1 = c" by simp
      show ?thesis
        by (simp add: importSaves_def Some data f c1 cleanupOldSaves_raises)
    qed
  qed
  have count: "getSaveCount c' = Undefined" for c'
    by (simp add: getSaveCount_def getMember_absent)
  from import_entry_eq [of parse toString clock c warnings i v] reset count show ?thesis
    by blast
qed

text \<open>An array with the serialised demo memento, a text that is not JSON, an object
  without a state and a number: the valid memento is not imported.\<close>

theorem importSaves_imports_nothing_witness:
  "demo_parse ''SAVES'' = Some (JArr [JStr ''GOOD'', JStr ''BROKEN'', JStr ''NOSTATE'', JNum 5])
   \<and> entry_memento demo_parse demo_toString (\<lambda>i. 5000 + int i) (0, JStr ''GOOD'')
       = Some (new_GameMemento 5000 (JStr ''save_1000_a'') (JObj (state demo_memento))
                 (JObj (metadata demo_memento)) (JStr ''1.0.0''))
   \<and> import_entry demo_parse demo_toString (\<lambda>i. 5000 + int i) (demo_caretaker, [])
         (0, JStr ''GOOD'')
       = (demo_caretaker, [(''Failed to import individual save:'', TypeError)])
   \<and> importSaves demo_parse demo_toString (\<lambda>i. 5000 + int i) ''SAVES'' demo_caretaker
       = (demo_caretaker,
          [(''Failed to import individual save:'', TypeError),
           (''Failed to import individual save:'', SyntaxError),
           (''Failed to import saves, resetting mementos:'', TypeError)])
   \<and> importSaves demo_parse demo_toString (\<lambda>i. 5000 + int i) ''garbage'' demo_caretaker
       = (demo_caretaker, [(''Failed to import saves, resetting mementos:'', SyntaxError)])
   \<and> getSaveCount
         (fst (importSaves demo_parse demo_toString (\<lambda>i. 5000 + int i) ''SAVES'' demo_caretaker))
       = Undefined"
proof -
  let ?clock = "\<lambda>i. 5000 + int i"
  let ?g = "new_GameMemento 5000 (JStr ''save_1000_a'') (JObj (state demo_memento))
            (JObj (metadata demo_memento)) (JStr ''1.0.0'')"
  have s: "demo_parse ''SAVES'' = Some (JArr [JStr ''GOOD'', JStr ''BROKEN'', JStr ''NOSTATE'', JNum 5])"
    by code_simp
  have gd: "fromJSON demo_parse (?clock 0) ''GOOD'' = Inr ?g" by code_simp
  have v: "isValid ?g" by code_simp
  have em: "entry_memento demo_parse demo_toString ?clock (0, JStr ''GOOD'') = Some ?g"
    using gd v by (simp add: entry_memento_def)
  have ws: "snd (importSaves demo_parse demo_toString ?clock ''SAVES'' demo_caretaker)
      = [(''Failed to import individual save:'', TypeError),
         (''Failed to import individual save:'', SyntaxError),
         (''Failed to import saves, resetting mementos:'', TypeError)]"
    by code_simp
  have wg: "snd (importSaves demo_parse demo_toString ?clock ''garbage'' demo_caretaker)
      = [(''Failed to import saves, resetting mementos:'', SyntaxError)]"
    by code_simp
  have dc: "demo_caretaker\<lparr>mementos := New_Map\<rparr> = demo_caretaker"
    by (simp add: demo_caretaker_def new_GameCaretaker_def)
  note t1 = importSaves_imports_nothing
    [where parse = demo_parse and toString = demo_toString and clock = ?clock
       and json = "''SAVES''" and c = demo_caretaker and warnings = "[]" and i = 0
       and v = "JStr ''GOOD''"]
  note t2 = importSaves_imports_nothing
    [where parse = demo_parse and toString = demo_toString and clock = ?clock
       and json = "''garbage''" and c = demo_caretaker and warnings = "[]" and i = 0
       and v = "JStr ''GOOD''"]
  from t1 gd v have ie: "import_entry demo_parse demo_toString ?clock (demo_caretaker, [])
         (0, JStr ''GOOD'')
       = (demo_caretaker, [(''Failed to import individual save:'', TypeError)])"
    by simp
  from t1 ws dc have i1: "importSaves demo_parse demo_toString ?clock ''SAVES'' demo_caretaker
       = (demo_caretaker,
          [(''Failed to import individual save:'', TypeError),
           (''Failed to import individual save:'', SyntaxError),
           (''Failed to import saves, resetting mementos:'', TypeError)])"
    by (simp add: prod_eq_iff)
  from t2 wg dc have i2: "importSaves demo_parse demo_toString ?clock ''garbage'' demo_caretaker
       = (demo_caretaker, [(''Failed to import saves, resetting mementos:'', SyntaxError)])"
    by (simp add: prod_eq_iff)
  from t1 have gc: "getSaveCount
         (fst (importSaves demo_parse demo_toString ?clock ''SAVES'' demo_caretaker)) = Undefined"
    by blast
  from s em ie i1 i2 gc show ?thesis by blast
qed

text \<open>
  C1. \<^verbatim>\<open>fromJSON\<close> never reads the \<^verbatim>\<open>timestamp\<close> that \<^verbatim>\<open>toJSON\<close> wrote: it calls the
  constructor, which takes the timestamp from the clock and writes it over the
  \<^verbatim>\<open>timestamp\<close> fields of the state and of the metadata. So for a valid memento and a
  runtime that parses the serialised text back to the serialised object, the result of
  \<^verbatim>\<open>fromJSON(m.toJSON())\<close> has the id, the version and all other fields of \<open>m\<close>, and
  carries the time of the call, \<open>now\<close>, in its three timestamps, whatever those of \<open>m\<close> were.
\<close>

theorem fromJSON_toJSON_resets_timestamp:
  assumes "parse (toJSON stringify m) = Some (memento_object m)" and "isValid m"
  shows "\<exists>m'. fromJSON parse now (toJSON stringify m) = Inr m'
           \<and> memento_id m' = memento_id m \<and> version m' = version m
           \<and> timestamp m' = now
           \<and> state m' = Map_set ''timestamp'' (JNum (of_int now)) (state m)
           \<and> metadata m' = Map_set ''timestamp'' (JNum (of_int now)) (metadata m)"
proof -
  from assms(2) have "version m \<noteq> JUndefined"
    by (auto simp add: isValid_def)
  then show ?thesis
    using assms(1)
    by (simp add: fromJSON_def memento_object_def new_GameMemento_def Map_get_def)
qed

text \<open>The memento saved at time 1000 and read back at time 2000 has timestamp 2000.\<close>

theorem fromJSON_toJSON_resets_timestamp_witness:
  "demo_parse (toJSON demo_stringify demo_memento) = Some (memento_object demo_memento)
   \<and> isValid demo_memento \<and> timestamp demo_memento = 1000
   \<and> state_prop demo_memento ''timestamp'' = JNum 1000
   \<and> (\<exists>m'. fromJSON demo_parse 2000 (toJSON demo_stringify demo_memento) = Inr m'
          \<and> memento_id m' = JStr ''save_1000_a'' \<and> timestamp m' = 2000
          \<and> state_prop m' ''timestamp'' = JNum 2000)"
proof -
  have p: "demo_parse (toJSON demo_stringify demo_memento) = Some (memento_object demo_memento)"
    by (simp add: toJSON_def demo_stringify_def demo_parse_def)
  have v: "isValid demo_memento" by code_simp
  have t: "timestamp demo_memento = 1000" "state_prop demo_memento ''timestamp'' = JNum 1000"
    "memento_id demo_memento = JStr ''save_1000_a''"
    by code_simp+
  have s: "state_prop (m'\<lparr>state := Map_set ''timestamp'' (JNum 2000) (state demo_memento)\<rparr>)
             ''timestamp'' = JNum 2000" for m'
    by (simp add: state_prop_def Map_get_Map_set)
  from fromJSON_toJSON_resets_timestamp
    [where parse = demo_parse and stringify = demo_stringify and m = demo_memento
       and now = 2000, OF p v]
  obtain m' where "fromJSON demo_parse 2000 (toJSON demo_stringify demo_memento) = Inr m'"
    "memento_id m' = memento_id demo_memento" "timestamp m' = 2000"
    "state m' = Map_set ''timestamp'' (JNum 2000) (state demo_memento)"
    by auto
  then show ?thesis
    using p v t by (auto simp add: state_prop_def Map_get_Map_set)
qed

end
